theory Spec2Isabelle
  imports Complex_Main
begin

section \<open>The KISS-GP additive regression notebook\<close>

text \<open>
  The development embeds the code cells of
  \<^verbatim>\<open>examples/05_Scalable_GP_Regression_Multidimensional/KISSGP_Additive_Regression_CUDA.ipynb\<close>.
  Tensors hold \<^typ>\<open>real\<close> numbers: the float32 entries of the notebook are idealised, so
  rounding, overflow and underflow are outside the model, with one exception: the
  exponential of the model's parameter is rounded to float32, since its sign and its
  vanishing depend on the rounding. A Python exception is the \<open>Inl\<close> branch of a sum.
\<close>

subsection \<open>Python and tensor primitives\<close>

text \<open>
  \<open>Chained e0 e\<close> is the exception \<open>e\<close> raised while \<open>e0\<close> was on its way out (Python 3
  keeps \<open>e0\<close> as the context of \<open>e\<close> and reports both).
\<close>

datatype py_error =
    ZeroDivisionError
  | IndexError
  | RuntimeError
  | ValueError
  | LibraryError string
  | Chained py_error py_error

type_synonym tensor1 = "real list"
type_synonym tensor2 = "real list list"

text \<open>Sequencing of two statements: the second runs only if the first did not raise.\<close>

definition then_do :: "py_error + 'a \<Rightarrow> ('a \<Rightarrow> py_error + 'b) \<Rightarrow> py_error + 'b" where
  "then_do m f = (case m of Inl e \<Rightarrow> Inl e | Inr a \<Rightarrow> f a)"

text \<open>\<^verbatim>\<open>for i in <list>: body\<close>, the body updating the state \<open>s\<close>.\<close>

fun for_range :: "nat list \<Rightarrow> (nat \<Rightarrow> 's \<Rightarrow> py_error + 's) \<Rightarrow> 's \<Rightarrow> py_error + 's" where
  "for_range [] body s = Inr s"
| "for_range (i # is) body s =
     (case body i s of Inl e \<Rightarrow> Inl e | Inr s' \<Rightarrow> for_range is body s')"

text \<open>\<^verbatim>\<open>range(n)\<close>\<close>

definition range_py :: "nat \<Rightarrow> nat list" where
  "range_py n = [0..<n]"

text \<open>\<^verbatim>\<open>torch.zeros(r, c)\<close>\<close>

definition zeros :: "nat \<Rightarrow> nat \<Rightarrow> tensor2" where
  "zeros r c = replicate r (replicate c 0)"

text \<open>\<^verbatim>\<open>float(a) / b\<close> on Python numbers: a zero divisor raises.\<close>

definition py_truediv :: "nat \<Rightarrow> int \<Rightarrow> py_error + real" where
  "py_truediv a b = (if b = 0 then Inl ZeroDivisionError else Inr (real a / real_of_int b))"

text \<open>\<^verbatim>\<open>t[r][c] = v\<close> with non-negative indices: an index out of range raises.\<close>

definition setitem2 :: "tensor2 \<Rightarrow> nat \<Rightarrow> nat \<Rightarrow> real \<Rightarrow> py_error + tensor2" where
  "setitem2 t r c v =
     (if r < length t \<and> c < length (t ! r) then Inr (t[r := (t ! r)[c := v]])
      else Inl IndexError)"

text \<open>\<^verbatim>\<open>t[:, c]\<close> on a two-dimensional tensor whose rows have the same length.\<close>

definition select_col :: "tensor2 \<Rightarrow> nat \<Rightarrow> py_error + tensor1" where
  "select_col t c =
     (if \<forall>row \<in> set t. c < length row then Inr (map (\<lambda>row. row ! c) t)
      else Inl IndexError)"

text \<open>
  \<^verbatim>\<open>a + b\<close> on one-dimensional tensors: elementwise when the sizes agree, an operand
  of size one is broadcast, any other pair of sizes raises.
\<close>

definition tensor_add :: "tensor1 \<Rightarrow> tensor1 \<Rightarrow> py_error + tensor1" where
  "tensor_add a b =
     (if length a = length b then Inr (map2 (+) a b)
      else if length a = 1 then Inr (map (\<lambda>y. hd a + y) b)
      else if length b = 1 then Inr (map (\<lambda>x. x + hd b) a)
      else Inl RuntimeError)"

text \<open>\<^verbatim>\<open>t * c\<close> for a Python number \<open>c\<close>.\<close>

definition tensor_scale :: "tensor1 \<Rightarrow> real \<Rightarrow> tensor1" where
  "tensor_scale t c = map (\<lambda>v. v * c) t"

subsection \<open>The float32 exponential\<close>

text \<open>
  A float32 value: a real number, an infinity, or not a number.
\<close>

datatype f32 = Finite real | PosInf | NegInf | NaN

text \<open>Rounding to the nearest integer, a tie going to the even one.\<close>

definition round_half_even :: "real \<Rightarrow> int" where
  "round_half_even q =
     (let f = \<lfloor>q\<rfloor>; r = q - real_of_int f in
      if r < 1 / 2 then f else if 1 / 2 < r then f + 1 else if even f then f else f + 1)"

text \<open>
  The spacing of the float32 values around a positive real \<open>x\<close>: \<open>2 ^ (e - 23)\<close> where
  \<open>2 ^ e \<le> x < 2 ^ (e + 1)\<close>, and never less than \<open>2 ^ (- 149)\<close>, the spacing of the
  subnormal values.
\<close>

definition f32_spacing :: "real \<Rightarrow> real" where
  "f32_spacing x = max (1 / 2 ^ 149) (2 powr real_of_int (\<lfloor>log 2 x\<rfloor> - 23))"

text \<open>
  The float32 value nearest to a positive real, ties to even: the nearest multiple of the
  spacing, and \<open>+inf\<close> when that is \<open>2 ^ 128\<close> or more.
\<close>

definition round_f32 :: "real \<Rightarrow> f32" where
  "round_f32 x =
     (let u = f32_spacing x; y = real_of_int (round_half_even (x / u)) * u in
      if 2 ^ 128 \<le> y then PosInf else Finite y)"

text \<open>
  \<^verbatim>\<open>t.exp()\<close> on a one-element float32 tensor, taken as correctly rounded: the float32
  value nearest to the exponential, which is positive.
\<close>

definition torch_exp :: "real \<Rightarrow> f32" where
  "torch_exp x = round_f32 (exp x)"

text \<open>The product of a real entry and a float32 factor, with the IEEE rules for infinities.\<close>

fun f32_scale :: "real \<Rightarrow> f32 \<Rightarrow> f32" where
  "f32_scale v (Finite c) = Finite (v * c)"
| "f32_scale v PosInf = (if 0 < v then PosInf else if v < 0 then NegInf else NaN)"
| "f32_scale v NegInf = (if 0 < v then NegInf else if v < 0 then PosInf else NaN)"
| "f32_scale v NaN = NaN"

subsection \<open>Data generation\<close>

text \<open>
  \<^verbatim>\<open>
  for i in range(n):
      for j in range(n):
          t[i * n + j][0] = float(i) / (n-1)
          t[i * n + j][1] = float(j) / (n-1)
  \<close>
\<close>

definition grid_body :: "nat \<Rightarrow> nat \<Rightarrow> nat \<Rightarrow> tensor2 \<Rightarrow> py_error + tensor2" where
  "grid_body n i j t =
     then_do (py_truediv i (int n - 1)) (\<lambda>a.
     then_do (setitem2 t (i * n + j) 0 a) (\<lambda>t1.
     then_do (py_truediv j (int n - 1)) (\<lambda>b.
     setitem2 t1 (i * n + j) 1 b)))"

definition fill_grid :: "nat \<Rightarrow> tensor2 \<Rightarrow> py_error + tensor2" where
  "fill_grid n t =
     for_range (range_py n) (\<lambda>i. for_range (range_py n) (\<lambda>j. grid_body n i j)) t"

text \<open>
  \<^verbatim>\<open>(torch.sin(x[:, 0]) + torch.cos(x[:, 1])) * (2 * math.pi)\<close>, the expression of both
  \<^verbatim>\<open>train_y\<close> and \<^verbatim>\<open>test_y_actual\<close>.
\<close>

definition target_formula :: "tensor2 \<Rightarrow> py_error + tensor1" where
  "target_formula x =
     then_do (select_col x 0) (\<lambda>c0.
     then_do (select_col x 1) (\<lambda>c1.
     then_do (tensor_add (map sin c0) (map cos c1)) (\<lambda>s.
     Inr (tensor_scale s (2 * pi)))))"

text \<open>
  The tensors of the second cell (\<open>n = 100\<close>) and of the evaluation cell (\<open>n = 10\<close>).
  \<^verbatim>\<open>Variable(...)\<close> and \<^verbatim>\<open>.cuda()\<close> wrap and move a tensor and keep its entries; the
  failure of the transfer is part of the cells below.
\<close>

definition train_x :: "py_error + tensor2" where
  "train_x = fill_grid 100 (zeros (100 ^ 2) 2)"

definition train_y :: "py_error + tensor1" where
  "train_y = then_do train_x target_formula"

definition test_x :: "py_error + tensor2" where
  "test_x = fill_grid 10 (zeros (10 ^ 2) 2)"

definition test_y_actual :: "py_error + tensor1" where
  "test_y_actual = then_do test_x target_formula"


subsection \<open>The model class\<close>

text \<open>
  The modules of the GP library that the constructor instantiates. Their hyperparameters,
  gradient buffers and caches are state of the library (the \<open>world\<close> below); the values
  here record which module was built from which arguments.
\<close>

datatype mean_module = ConstantMean

datatype kernel =
    RBFKernel
  | AdditiveGridInterpolationKernel kernel nat "(real \<times> real) list" nat

datatype likelihood = GaussianLikelihood

text \<open>
  The distribution object: its mean and its covariance matrix. The covariance that
  \<open>forward\<close> builds is scaled by a float32 factor, so its entries are float32 values.
\<close>

datatype grv = GaussianRandomVariable tensor1 "f32 list list"

fun grid_bounds :: "kernel \<Rightarrow> (real \<times> real) list" where
  "grid_bounds (AdditiveGridInterpolationKernel base gs gb nc) = gb"
| "grid_bounds RBFKernel = []"

fun n_components :: "kernel \<Rightarrow> nat" where
  "n_components (AdditiveGridInterpolationKernel base gs gb nc) = nc"
| "n_components RBFKernel = 0"

text \<open>
  \<^verbatim>\<open>class GPRegressionModel(gpytorch.models.ExactGP)\<close>: the fields of the base class
  are those its constructor receives, the subclass adds its modules and its own parameter.
  The parameter is the one-element tensor \<^verbatim>\<open>torch.Tensor([0])\<close>, held as its entry.
\<close>

record ExactGP =
  train_inputs :: tensor2
  train_targets :: tensor1
  likelihood :: likelihood

record GPRegressionModel = ExactGP +
  mean_module :: mean_module
  base_covar_module :: kernel
  covar_module :: kernel
  log_outputscale :: real

text \<open>
  Modelled from the spec: \<^verbatim>\<open>LazyVariable.mul\<close> of the GP library is not among the
  sources; the spec has the covariance "scaled" by the factor, so every entry of the
  matrix is multiplied by it.
\<close>

definition lazy_mul :: "tensor2 \<Rightarrow> f32 \<Rightarrow> f32 list list" where
  "lazy_mul k c = map (map (\<lambda>v. f32_scale v c)) k"

text \<open>
  Modelled from the spec: \<^verbatim>\<open>GaussianRandomVariable.mean()\<close> and the covariance of the GP
  library are not among the sources; the spec speaks of the mean and the covariance of the
  distribution object, which are the two arguments it was built from.
\<close>

fun mean_of :: "grv \<Rightarrow> tensor1" where
  "mean_of (GaussianRandomVariable m k) = m"

fun covar_of :: "grv \<Rightarrow> f32 list list" where
  "covar_of (GaussianRandomVariable m k) = k"

subsection \<open>Calls into the libraries\<close>

text \<open>
  A line of standard output, \<^verbatim>\<open>'Iter %d/%d - Loss: %.3f'\<close>, kept as its three arguments:
  the rounding to three decimals is not modelled.
\<close>

datatype line = IterLine nat nat real

datatype call =
    TensorOp string
  | Cuda string
  | Cpu string
  | New string
  | RegisterParameter string
  | SetTrain string
  | SetEval string
  | NewAdam real
  | EnterToeplitz bool
  | ExitToeplitz
  | ZeroGrad
  | ModelCall tensor2
  | MeanCall
  | KernelCall
  | MllCall
  | Backward real
  | Print line
  | AdamStep real
  | LikelihoodCall
  | Subplots
  | Imshow
  | SetTitle string
  | Colorbar

datatype outcome = Returned | Gave real | Raised py_error

text \<open>
  The state of a run: the state of the libraries (hyperparameters, gradients, optimizer
  moments, device memory, figures), which this repository never inspects, and the trace
  of the calls made so far with their outcomes. A call that raises keeps its effects.
\<close>

record 'w session =
  world :: 'w
  trace :: "(call \<times> outcome) list"

type_synonym ('a, 'w) lib_op = "'w \<Rightarrow> (py_error + 'a) \<times> 'w"
type_synonym ('a, 'w) nb = "'w session \<Rightarrow> (py_error + 'a) \<times> 'w session"

text \<open>
  The library functions whose code is not part of the notebook are parameters: each may
  change the world, and each may raise.
\<close>

record 'w library =
  effect :: "call \<Rightarrow> (unit, 'w) lib_op"
  mean_call :: "mean_module \<Rightarrow> tensor2 \<Rightarrow> (tensor1, 'w) lib_op"
  kernel_call :: "kernel \<Rightarrow> tensor2 \<Rightarrow> (tensor2, 'w) lib_op"
  exact_gp_call :: "GPRegressionModel \<Rightarrow> tensor2 \<Rightarrow> (grv, 'w) lib_op"
  mll_call :: "GPRegressionModel \<Rightarrow> grv \<Rightarrow> tensor1 \<Rightarrow> (real, 'w) lib_op"
  backward :: "real \<Rightarrow> (unit, 'w) lib_op"
  adam_step :: "real \<Rightarrow> GPRegressionModel \<Rightarrow> (real, 'w) lib_op"
  likelihood_call :: "grv \<Rightarrow> (grv, 'w) lib_op"

definition ret :: "'a \<Rightarrow> ('a, 'w) nb" where
  "ret a = (\<lambda>s. (Inr a, s))"

definition bind :: "('a, 'w) nb \<Rightarrow> ('a \<Rightarrow> ('b, 'w) nb) \<Rightarrow> ('b, 'w) nb" where
  "bind m f = (\<lambda>s. case m s of (Inl e, s') \<Rightarrow> (Inl e, s') | (Inr a, s') \<Rightarrow> f a s')"

fun outcome_of :: "py_error + 'a \<Rightarrow> outcome" where
  "outcome_of (Inl e) = Raised e"
| "outcome_of (Inr a) = Returned"

fun outcome_real :: "py_error + real \<Rightarrow> outcome" where
  "outcome_real (Inl e) = Raised e"
| "outcome_real (Inr v) = Gave v"

definition call_lib :: "call \<Rightarrow> ('a, 'w) lib_op \<Rightarrow> ('a, 'w) nb" where
  "call_lib c f = (\<lambda>s. case f (world s) of (r, w') \<Rightarrow>
     (r, \<lparr>world = w', trace = trace s @ [(c, outcome_of r)]\<rparr>))"

definition call_real :: "call \<Rightarrow> (real, 'w) lib_op \<Rightarrow> (real, 'w) nb" where
  "call_real c f = (\<lambda>s. case f (world s) of (r, w') \<Rightarrow>
     (r, \<lparr>world = w', trace = trace s @ [(c, outcome_real r)]\<rparr>))"

text \<open>A tensor computation whose value is modelled above: it leaves the world alone.\<close>

definition call_py :: "call \<Rightarrow> py_error + 'a \<Rightarrow> ('a, 'w) nb" where
  "call_py c r = call_lib c (\<lambda>w. (r, w))"

definition lib_effect :: "'w library \<Rightarrow> call \<Rightarrow> (unit, 'w) nb" where
  "lib_effect L c = call_lib c (effect L c)"

text \<open>\<^verbatim>\<open>for i in <list>: body\<close>, the body updating the loop-carried value \<open>a\<close>.\<close>

fun for_loop :: "nat list \<Rightarrow> (nat \<Rightarrow> 'a \<Rightarrow> ('a, 'w) nb) \<Rightarrow> 'a \<Rightarrow> ('a, 'w) nb" where
  "for_loop [] body a = ret a"
| "for_loop (i # is) body a = bind (body i a) (for_loop is body)"

text \<open>
  \<^verbatim>\<open>with cm: body\<close>: the exit of the context manager runs whether the body raised or
  not. An exception of the body goes on after it; if the exit raises as well, its
  exception goes on with the one of the body as context.
\<close>

definition with_ctx :: "(unit, 'w) nb \<Rightarrow> (unit, 'w) nb \<Rightarrow> ('a, 'w) nb \<Rightarrow> ('a, 'w) nb" where
  "with_ctx enter exit body = (\<lambda>s.
     case enter s of
       (Inl e, s1) \<Rightarrow> (Inl e, s1)
     | (Inr _, s1) \<Rightarrow>
         (case body s1 of (rb, s2) \<Rightarrow>
            (case exit s2 of
               (Inl e, s3) \<Rightarrow>
                 (case rb of Inl e0 \<Rightarrow> (Inl (Chained e0 e), s3) | Inr _ \<Rightarrow> (Inl e, s3))
             | (Inr _, s3) \<Rightarrow> (rb, s3))))"

text \<open>The exceptions raised in a trace, in order.\<close>

fun raised :: "call \<times> outcome \<Rightarrow> py_error list" where
  "raised (c, Raised e) = [e]"
| "raised (c, Returned) = []"
| "raised (c, Gave v) = []"

definition raises :: "(call \<times> outcome) list \<Rightarrow> py_error list" where
  "raises tr = concat (map raised tr)"

subsection \<open>The cells of the notebook\<close>

text \<open>Second cell: the training data.\<close>

definition data_cell :: "'w library \<Rightarrow> (tensor2 \<times> tensor1, 'w) nb" where
  "data_cell L =
     bind (call_py (TensorOp ''train_x'') train_x) (\<lambda>tx.
     bind (lib_effect L (Cuda ''train_x'')) (\<lambda>_.
     bind (call_py (TensorOp ''train_y'') (target_formula tx)) (\<lambda>ty.
     bind (lib_effect L (Cuda ''train_y'')) (\<lambda>_.
     ret (tx, ty)))))"

text \<open>
  Third cell: \<^verbatim>\<open>GPRegressionModel.__init__\<close> and \<^verbatim>\<open>GPRegressionModel.forward\<close>, then the
  likelihood and the model. The notebook never calls \<open>forward\<close> itself: \<^verbatim>\<open>model(x)\<close> is the
  \<^verbatim>\<open>__call__\<close> of the base class, which is library code and the parameter
  \<open>exact_gp_call\<close> here.
\<close>

definition init ::
  "'w library \<Rightarrow> tensor2 \<Rightarrow> tensor1 \<Rightarrow> likelihood \<Rightarrow> (GPRegressionModel, 'w) nb" where
  "init L tx ty lik =
     bind (lib_effect L (New ''ExactGP'')) (\<lambda>_.
     bind (lib_effect L (New ''ConstantMean'')) (\<lambda>_.
     bind (lib_effect L (New ''RBFKernel'')) (\<lambda>_.
     bind (lib_effect L (New ''AdditiveGridInterpolationKernel'')) (\<lambda>_.
     bind (lib_effect L (New ''Parameter'')) (\<lambda>_.
     bind (lib_effect L (RegisterParameter ''log_outputscale'')) (\<lambda>_.
     ret \<lparr>train_inputs = tx, train_targets = ty, likelihood = lik,
          mean_module = ConstantMean,
          base_covar_module = RBFKernel,
          covar_module = AdditiveGridInterpolationKernel RBFKernel 400 [(0, 1)] 2,
          log_outputscale = 0\<rparr>))))))"

definition forward :: "'w library \<Rightarrow> GPRegressionModel \<Rightarrow> tensor2 \<Rightarrow> (grv, 'w) nb" where
  "forward L self x =
     bind (call_lib MeanCall (mean_call L (mean_module self) x)) (\<lambda>mean_x.
     bind (call_lib KernelCall (kernel_call L (covar_module self) x)) (\<lambda>covar_x.
     bind (ret (lazy_mul covar_x (torch_exp (log_outputscale self)))) (\<lambda>covar_x.
     ret (GaussianRandomVariable mean_x covar_x))))"

definition model_cell :: "'w library \<Rightarrow> tensor2 \<Rightarrow> tensor1 \<Rightarrow> (GPRegressionModel, 'w) nb" where
  "model_cell L tx ty =
     bind (lib_effect L (New ''GaussianLikelihood'')) (\<lambda>_.
     bind (lib_effect L (Cuda ''likelihood'')) (\<lambda>_.
     bind (init L tx ty GaussianLikelihood) (\<lambda>model.
     bind (lib_effect L (Cuda ''model'')) (\<lambda>_.
     ret model))))"

text \<open>Fourth cell: the training loop.\<close>

record adam =
  lr :: real

definition num_iter :: nat where
  "num_iter = 20"

definition training_iteration ::
  "'w library \<Rightarrow> adam \<Rightarrow> tensor2 \<Rightarrow> tensor1 \<Rightarrow> nat \<Rightarrow> GPRegressionModel \<Rightarrow>
     (GPRegressionModel, 'w) nb" where
  "training_iteration L optimizer tx ty i model =
     bind (lib_effect L ZeroGrad) (\<lambda>_.
     bind (call_lib (ModelCall tx) (exact_gp_call L model tx)) (\<lambda>output.
     bind (call_real MllCall (mll_call L model output ty)) (\<lambda>v.
     bind (ret (- v)) (\<lambda>loss.
     bind (call_lib (Backward loss) (backward L loss)) (\<lambda>_.
     bind (call_py (Print (IterLine (i + 1) num_iter loss)) (Inr ())) (\<lambda>_.
     bind (call_lib (AdamStep (lr optimizer)) (adam_step L (lr optimizer) model)) (\<lambda>los.
     ret (model\<lparr>log_outputscale := los\<rparr>))))))))"

definition training_cell ::
  "'w library \<Rightarrow> tensor2 \<Rightarrow> tensor1 \<Rightarrow> GPRegressionModel \<Rightarrow> (GPRegressionModel, 'w) nb" where
  "training_cell L tx ty model =
     bind (lib_effect L (SetTrain ''model'')) (\<lambda>_.
     bind (lib_effect L (SetTrain ''likelihood'')) (\<lambda>_.
     bind (lib_effect L (NewAdam (2 / 10))) (\<lambda>_.
     bind (ret \<lparr>lr = 2 / 10\<rparr>) (\<lambda>optimizer.
     bind (lib_effect L (New ''ExactMarginalLogLikelihood'')) (\<lambda>_.
     with_ctx (lib_effect L (EnterToeplitz False)) (lib_effect L ExitToeplitz)
       (for_loop (range_py num_iter) (training_iteration L optimizer tx ty) model))))))"

text \<open>Fifth cell: evaluation on the test grid and the three plots.\<close>

text \<open>
  \<^verbatim>\<open>t.view(r, c)\<close> of a one-dimensional tensor and \<^verbatim>\<open>a.reshape(r, c)\<close> of a
  one-dimensional NumPy array: row \<open>i\<close> is the \<open>i\<close>-th block of \<open>c\<close> entries; a size other
  than \<open>r * c\<close> raises, a \<^verbatim>\<open>RuntimeError\<close> in the tensor library and a \<^verbatim>\<open>ValueError\<close> in NumPy.
\<close>

definition rows_of :: "nat \<Rightarrow> nat \<Rightarrow> tensor1 \<Rightarrow> tensor2" where
  "rows_of r c t = map (\<lambda>i. take c (drop (i * c) t)) [0..<r]"

definition view2 :: "nat \<Rightarrow> nat \<Rightarrow> tensor1 \<Rightarrow> py_error + tensor2" where
  "view2 r c t = (if length t = r * c then Inr (rows_of r c t) else Inl RuntimeError)"

definition reshape2 :: "nat \<Rightarrow> nat \<Rightarrow> tensor1 \<Rightarrow> py_error + tensor2" where
  "reshape2 r c t = (if length t = r * c then Inr (rows_of r c t) else Inl ValueError)"

text \<open>
  \<^verbatim>\<open>a - b\<close> on two-dimensional NumPy arrays: a dimension of size one is broadcast,
  dimensions that differ otherwise raise.
\<close>

definition cols :: "tensor2 \<Rightarrow> nat" where
  "cols a = (case a of [] \<Rightarrow> 0 | row # _ \<Rightarrow> length row)"

definition bcast :: "nat \<Rightarrow> nat \<Rightarrow> nat option" where
  "bcast m n = (if m = n then Some m else if m = 1 then Some n else if n = 1 then Some m else None)"

definition bget :: "tensor2 \<Rightarrow> nat \<Rightarrow> nat \<Rightarrow> real" where
  "bget a i j = a ! (if length a = 1 then 0 else i) ! (if cols a = 1 then 0 else j)"

definition np_subtract :: "tensor2 \<Rightarrow> tensor2 \<Rightarrow> py_error + tensor2" where
  "np_subtract a b =
     (case (bcast (length a) (length b), bcast (cols a) (cols b)) of
        (Some r, Some c) \<Rightarrow>
          Inr (map (\<lambda>i. map (\<lambda>j. bget a i j - bget b i j) [0..<c]) [0..<r])
      | _ \<Rightarrow> Inl ValueError)"

definition np_absolute :: "tensor2 \<Rightarrow> tensor2" where
  "np_absolute a = map (map abs) a"

text \<open>
  \<^verbatim>\<open>
  def ax_plot(f, ax, y_labels, title):
      im = ax.imshow(y_labels)
      ax.set_title(title)
      f.colorbar(im)
  \<close>
\<close>

definition ax_plot :: "'w library \<Rightarrow> string \<Rightarrow> (unit, 'w) nb" where
  "ax_plot L title =
     bind (lib_effect L Imshow) (\<lambda>_.
     bind (lib_effect L (SetTitle title)) (\<lambda>_.
     lib_effect L Colorbar))"

definition eval_cell ::
  "'w library \<Rightarrow> GPRegressionModel \<Rightarrow> (tensor2 \<times> tensor2 \<times> tensor2, 'w) nb" where
  "eval_cell L model =
     bind (lib_effect L (SetEval ''model'')) (\<lambda>_.
     bind (lib_effect L (SetEval ''likelihood'')) (\<lambda>_.
     bind (lib_effect L (Cuda ''test_x'')) (\<lambda>_.
     bind (call_py (TensorOp ''test_x'') test_x) (\<lambda>tx.
     bind (call_lib (ModelCall tx) (exact_gp_call L model tx)) (\<lambda>f.
     bind (call_lib LikelihoodCall (likelihood_call L f)) (\<lambda>observed_pred.
     bind (call_py (TensorOp ''view'') (view2 10 10 (mean_of observed_pred))) (\<lambda>pred_labels.
     bind (lib_effect L (Cpu ''pred_labels'')) (\<lambda>_.
     bind (call_py (TensorOp ''test_y_actual'') (target_formula tx)) (\<lambda>y.
     bind (lib_effect L (Cpu ''test_y_actual'')) (\<lambda>_.
     bind (call_py (TensorOp ''reshape'') (reshape2 10 10 y)) (\<lambda>test_y_actual.
     bind (call_py (TensorOp ''subtract'') (np_subtract pred_labels test_y_actual)) (\<lambda>d.
     bind (ret (np_absolute d)) (\<lambda>delta_y.
     bind (lib_effect L Subplots) (\<lambda>_.
     bind (ax_plot L ''Predicted Values (Likelihood)'') (\<lambda>_.
     bind (lib_effect L Subplots) (\<lambda>_.
     bind (ax_plot L ''Actual Values (Likelihood)'') (\<lambda>_.
     bind (lib_effect L Subplots) (\<lambda>_.
     bind (ax_plot L ''Absolute Error Surface'') (\<lambda>_.
     ret (pred_labels, test_y_actual, delta_y))))))))))))))))))))"

text \<open>The whole notebook, cell after cell.\<close>

definition notebook :: "'w library \<Rightarrow> (tensor2 \<times> tensor2 \<times> tensor2, 'w) nb" where
  "notebook L =
     bind (data_cell L) (\<lambda>(tx, ty).
     bind (model_cell L tx ty) (\<lambda>model.
     bind (training_cell L tx ty model) (\<lambda>model.
     eval_cell L model)))"

subsection \<open>Properties of runs\<close>

text \<open>
  \<open>ends_at_raise new r\<close>: the calls \<open>new\<close> of a run with result \<open>r\<close> raise nothing when the
  run returns, and when the run raises \<open>e\<close> the last call raised \<open>e\<close> and no call before it
  raised.
\<close>

definition ends_at_raise :: "(call \<times> outcome) list \<Rightarrow> py_error + 'a \<Rightarrow> bool" where
  "ends_at_raise new r =
     (case r of
        Inr a \<Rightarrow> raises new = []
      | Inl e \<Rightarrow> \<exists>pre c. new = pre @ [(c, Raised e)] \<and> raises pre = [])"

text \<open>
  The same with the \<^verbatim>\<open>with\<close> block taken into account: after a raise, at most the exit of
  the context manager is still called.
\<close>

definition unhandled :: "(call \<times> outcome) list \<Rightarrow> py_error + 'a \<Rightarrow> bool" where
  "unhandled new r =
     (case r of
        Inr a \<Rightarrow> raises new = []
      | Inl e \<Rightarrow> \<exists>pre c. raises pre = [] \<and>
          (new = pre @ [(c, Raised e)] \<or>
           new = pre @ [(c, Raised e), (ExitToeplitz, Returned)] \<or>
           (\<exists>e0 e1. e = Chained e0 e1 \<and>
              new = pre @ [(c, Raised e0), (ExitToeplitz, Raised e1)])))"

definition straight :: "('a, 'w) nb \<Rightarrow> bool" where
  "straight m = (\<forall>s. \<exists>new. trace (snd (m s)) = trace s @ new \<and> ends_at_raise new (fst (m s)))"

definition propagating :: "('a, 'w) nb \<Rightarrow> bool" where
  "propagating m = (\<forall>s. \<exists>new. trace (snd (m s)) = trace s @ new \<and> unhandled new (fst (m s)))"

text \<open>A computation that returns from every state.\<close>

definition returns :: "('a, 'w) nb \<Rightarrow> bool" where
  "returns m = (\<forall>s. \<not> isl (fst (m s)))"

text \<open>A library none of whose functions raises.\<close>

definition never_raises :: "'w library \<Rightarrow> bool" where
  "never_raises L =
     ((\<forall>c w. \<not> isl (fst (effect L c w))) \<and>
      (\<forall>m x w. \<not> isl (fst (mean_call L m x w))) \<and>
      (\<forall>k x w. \<not> isl (fst (kernel_call L k x w))) \<and>
      (\<forall>m x w. \<not> isl (fst (exact_gp_call L m x w))) \<and>
      (\<forall>m d y w. \<not> isl (fst (mll_call L m d y w))) \<and>
      (\<forall>l w. \<not> isl (fst (backward L l w))) \<and>
      (\<forall>r m w. \<not> isl (fst (adam_step L r m w))) \<and>
      (\<forall>d w. \<not> isl (fst (likelihood_call L d w))))"

text \<open>The calls of one iteration of the training loop that completes.\<close>

definition iteration_trace :: "tensor2 \<Rightarrow> real \<Rightarrow> nat \<Rightarrow> real \<Rightarrow> (call \<times> outcome) list" where
  "iteration_trace tx rate i v =
     [(ZeroGrad, Returned), (ModelCall tx, Returned), (MllCall, Gave v),
      (Backward (- v), Returned),
      (Print (IterLine (i + 1) 20 (- v)), Returned), (AdamStep rate, Returned)]"

text \<open>
  One iteration that completes, as a relation between the model and the world before
  and after it: the five library calls of the loop body, each on the world the previous
  one left, with the output \<open>out\<close> of the model, the value \<open>v\<close> of the marginal log
  likelihood, and the parameter that the optimizer step returns.
\<close>

definition iteration_step ::
  "'w library \<Rightarrow> real \<Rightarrow> tensor2 \<Rightarrow> tensor1 \<Rightarrow> GPRegressionModel \<Rightarrow> 'w \<Rightarrow> grv \<Rightarrow> real \<Rightarrow>
     GPRegressionModel \<Rightarrow> 'w \<Rightarrow> bool" where
  "iteration_step L rate tx ty m w out v m' w' =
     (\<exists>wa wb wc wd.
        effect L ZeroGrad w = (Inr (), wa) \<and>
        exact_gp_call L m tx wa = (Inr out, wb) \<and>
        mll_call L m out ty wb = (Inr v, wc) \<and>
        backward L (- v) wc = (Inr (), wd) \<and>
        adam_step L rate m wd = (Inr (log_outputscale m'), w') \<and>
        m' = m\<lparr>log_outputscale := log_outputscale m'\<rparr>)"

subsection \<open>Two libraries to run the notebook against\<close>

text \<open>
  A library whose world counts the calls: nothing raises, the model predicts zero
  everywhere, the likelihood returns its argument, the optimizer moves the parameter by
  the learning rate.
\<close>

definition quiet_library :: "nat library" where
  "quiet_library =
     \<lparr>effect = (\<lambda>c w. (Inr (), w + 1)),
      mean_call = (\<lambda>m x w. (Inr (map (\<lambda>row. 0) x), w + 1)),
      kernel_call = (\<lambda>k x w. (Inr (map (\<lambda>a. map (\<lambda>b. if a = b then 1 else 0) x) x), w + 1)),
      exact_gp_call = (\<lambda>m x w. (Inr (GaussianRandomVariable (map (\<lambda>row. 0) x) []), w + 1)),
      mll_call = (\<lambda>m d y w. (Inr (log_outputscale m), w + 1)),
      backward = (\<lambda>l w. (Inr (), w + 1)),
      adam_step = (\<lambda>r m w. (Inr (log_outputscale m + r), w + 1)),
      likelihood_call = (\<lambda>d w. (Inr d, w + 1))\<rparr>"

text \<open>The same library on a machine without CUDA: every transfer to the device raises.\<close>

definition no_cuda_library :: "nat library" where
  "no_cuda_library =
     quiet_library\<lparr>effect :=
       (\<lambda>c w. case c of Cuda x \<Rightarrow> (Inl (LibraryError ''no CUDA''), w) | _ \<Rightarrow> (Inr (), w + 1))\<rparr>"

text \<open>The model as the constructor leaves it, on a training set of one point.\<close>

definition example_model :: GPRegressionModel where
  "example_model =
     \<lparr>train_inputs = [[0, 0]], train_targets = [2 * pi], likelihood = GaussianLikelihood,
      mean_module = ConstantMean,
      base_covar_module = RBFKernel,
      covar_module = AdditiveGridInterpolationKernel RBFKernel 400 [(0, 1)] 2,
      log_outputscale = 0\<rparr>"

definition start :: "nat session" where
  "start = \<lparr>world = 0, trace = []\<rparr>"

subsection \<open>The grid in closed form\<close>

text \<open>
  Row \<open>k\<close> of the grid that the two loops build, and the tensor after the first \<open>k\<close>
  rows have been written; they serve the proofs and are not part of the notebook.
\<close>

definition grid_point :: "nat \<Rightarrow> nat \<Rightarrow> real list" where
  "grid_point n k =
     [real (k div n) / real_of_int (int n - 1), real (k mod n) / real_of_int (int n - 1)]"

definition grid :: "nat \<Rightarrow> tensor2" where
  "grid n = map (grid_point n) [0..<n * n]"

definition partial_grid :: "nat \<Rightarrow> nat \<Rightarrow> tensor2" where
  "partial_grid n k = map (grid_point n) [0..<k] @ replicate (n * n - k) [0, 0]"

section \<open>Verification\<close>

subsection \<open>The grid loops\<close>

lemma for_range_append:
  "for_range (xs @ ys) body s =
     (case for_range xs body s of Inl e \<Rightarrow> Inl e | Inr s' \<Rightarrow> for_range ys body s')"
  by (induction xs arbitrary: s) (auto split: sum.splits)

lemma partial_grid_length: "k \<le> n * n \<Longrightarrow> length (partial_grid n k) = n * n"
  by (simp add: partial_grid_def)

lemma partial_grid_nth: "k < n * n \<Longrightarrow> partial_grid n k ! k = [0, 0]"
  by (simp add: partial_grid_def nth_append)

lemma partial_grid_update:
  assumes "k < n * n"
  shows "(partial_grid n k)[k := grid_point n k] = partial_grid n (Suc k)"
proof -
  have "replicate (n * n - k) [0, 0 :: real] = [0, 0] # replicate (n * n - Suc k) [0, 0]"
    using assms by (metis Suc_diff_Suc replicate_Suc)
  then show ?thesis
    by (simp add: partial_grid_def list_update_append)
qed

lemma index_in_grid:
  assumes "i < n" "j < n"
  shows "i * n + j < n * (n::nat)"
proof -
  have "i * n + j < i * n + n" using assms by simp
  also have "\<dots> = Suc i * n" by simp
  also have "\<dots> \<le> n * n" using assms by (metis Suc_leI mult.commute mult_le_mono1)
  finally show ?thesis .
qed

lemma grid_body_step:
  assumes "n \<noteq> 1" "i < n" "j < n"
  shows "grid_body n i j (partial_grid n (i * n + j)) = Inr (partial_grid n (Suc (i * n + j)))"
proof -
  let ?k = "i * n + j"
  have k: "?k < n * n" using assms by (simp add: index_in_grid)
  have nz: "int n - 1 \<noteq> 0" using assms by simp
  have len: "length (partial_grid n ?k) = n * n"
    using k by (simp add: partial_grid_length)
  have row: "partial_grid n ?k ! ?k = [0, 0]"
    using k by (rule partial_grid_nth)
  have pt: "grid_point n ?k = [real i / real_of_int (int n - 1), real j / real_of_int (int n - 1)]"
    using assms by (simp add: grid_point_def)
  have "grid_body n i j (partial_grid n ?k) = Inr ((partial_grid n ?k)[?k := grid_point n ?k])"
    using nz k len row pt
    by (simp add: grid_body_def then_do_def py_truediv_def setitem2_def)
  then show ?thesis
    using k by (simp add: partial_grid_update)
qed

lemma inner_loop:
  assumes "n \<noteq> 1" "i < n"
  shows "j \<le> n \<Longrightarrow>
    for_range [0..<j] (\<lambda>j. grid_body n i j) (partial_grid n (i * n)) =
      Inr (partial_grid n (i * n + j))"
proof (induction j)
  case 0
  then show ?case by simp
next
  case (Suc j)
  then have "j < n" and "j \<le> n" by simp_all
  with Suc.IH assms show ?case
    by (simp add: for_range_append grid_body_step)
qed

lemma outer_loop:
  assumes "n \<noteq> 1"
  shows "i \<le> n \<Longrightarrow>
    for_range [0..<i] (\<lambda>i. for_range [0..<n] (\<lambda>j. grid_body n i j)) (partial_grid n 0) =
      Inr (partial_grid n (i * n))"
proof (induction i)
  case 0
  then show ?case by simp
next
  case (Suc i)
  then have "i < n" and "i \<le> n" by simp_all
  with Suc.IH assms show ?case
    by (simp add: for_range_append inner_loop add.commute)
qed

lemma fill_grid_closed_form:
  assumes "n \<noteq> 1"
  shows "fill_grid n (zeros (n ^ 2) 2) = Inr (grid n)"
proof -
  have z: "zeros (n ^ 2) 2 = partial_grid n 0"
    by (simp add: zeros_def partial_grid_def power2_eq_square numeral_2_eq_2)
  have g: "partial_grid n (n * n) = grid n"
    by (simp add: partial_grid_def grid_def)
  show ?thesis
    using outer_loop [OF assms, of n] by (simp add: fill_grid_def range_py_def z g)
qed

lemma train_x_grid: "train_x = Inr (grid 100)"
  unfolding train_x_def by (rule fill_grid_closed_form) simp

lemma test_x_grid: "test_x = Inr (grid 10)"
  unfolding test_x_def by (rule fill_grid_closed_form) simp

subsection \<open>The tensors of the data cells\<close>

lemma grid_length: "length (grid n) = n * n"
  by (simp add: grid_def)

lemma grid_nth: "k < n * n \<Longrightarrow> grid n ! k = grid_point n k"
  by (simp add: grid_def)

lemma grid_row_length: "row \<in> set (grid n) \<Longrightarrow> length row = 2"
  by (auto simp: grid_def grid_point_def)

lemma grid_point_at:
  "i < n \<Longrightarrow> j < n \<Longrightarrow>
     grid_point n (i * n + j) = [real i / real_of_int (int n - 1), real j / real_of_int (int n - 1)]"
  by (simp add: grid_point_def)

lemma grid_point_bounds:
  assumes "1 < n" "k < n * n" "v \<in> set (grid_point n k)"
  shows "0 \<le> v \<and> v \<le> 1"
proof -
  have d: "k div n < n"
    using assms by (simp add: less_mult_imp_div_less)
  have m: "k mod n < n"
    using assms by simp
  have pos: "0 < real_of_int (int n - 1)"
    using assms by simp
  have le: "real a \<le> real_of_int (int n - 1)" if "a < n" for a
    using that by (simp add: of_nat_diff)
  have "v = real (k div n) / real_of_int (int n - 1) \<or> v = real (k mod n) / real_of_int (int n - 1)"
    using assms by (auto simp: grid_point_def)
  then show ?thesis
    using pos le [OF d] le [OF m] by (auto simp: divide_le_eq_1)
qed

lemma grid_bounds_all:
  assumes "1 < n" "row \<in> set (grid n)" "v \<in> set row"
  shows "0 \<le> v \<and> v \<le> 1"
proof -
  from assms obtain k where "k < n * n" "row = grid_point n k"
    by (auto simp: grid_def)
  with assms show ?thesis
    using grid_point_bounds by blast
qed

lemma select_col_grid:
  "c < 2 \<Longrightarrow> select_col (grid n) c = Inr (map (\<lambda>row. row ! c) (grid n))"
  by (auto simp: select_col_def dest: grid_row_length)

lemma target_formula_grid:
  "target_formula (grid n) =
     Inr (map (\<lambda>row. (sin (row ! 0) + cos (row ! 1)) * (2 * pi)) (grid n))"
proof -
  have "map2 (+) (map sin (map (\<lambda>row. row ! 0) xs)) (map cos (map (\<lambda>row. row ! 1) xs))
          = map (\<lambda>row. sin (row ! 0) + cos (row ! 1)) xs" for xs :: tensor2
    by (induction xs) simp_all
  then show ?thesis
    by (simp add: target_formula_def then_do_def select_col_grid tensor_add_def
        tensor_scale_def)
qed

lemma train_y_grid:
  "train_y = Inr (map (\<lambda>row. (sin (row ! 0) + cos (row ! 1)) * (2 * pi)) (grid 100))"
  by (simp add: train_y_def train_x_grid then_do_def target_formula_grid)

lemma test_y_actual_grid:
  "test_y_actual = Inr (map (\<lambda>row. (sin (row ! 0) + cos (row ! 1)) * (2 * pi)) (grid 10))"
  by (simp add: test_y_actual_def test_x_grid then_do_def target_formula_grid)

lemma target_bound: "\<bar>(sin a + cos b) * (2 * pi)\<bar> \<le> 4 * pi"
proof -
  have "\<bar>sin a + cos b\<bar> \<le> \<bar>sin a\<bar> + \<bar>cos b\<bar>"
    by (rule abs_triangle_ineq)
  also have "\<dots> \<le> 1 + 1"
    by (intro add_mono abs_sin_le_one abs_cos_le_one)
  finally have "\<bar>sin a + cos b\<bar> \<le> 2" by simp
  then have "\<bar>sin a + cos b\<bar> * (2 * pi) \<le> 2 * (2 * pi)"
    by (intro mult_right_mono) simp_all
  then show ?thesis
    by (simp add: abs_mult)
qed

text \<open>
  Claim C8. The targets follow the formula \<open>y = (sin(x0) + cos(x1)) * 2*pi\<close>: both cells
  complete, and entry \<open>k\<close> of \<^verbatim>\<open>train_y\<close> (of \<^verbatim>\<open>test_y_actual\<close>) is the formula at row \<open>k\<close> of
  \<^verbatim>\<open>train_x\<close> (of \<^verbatim>\<open>test_x\<close>).
\<close>

theorem targets_follow_formula:
  "\<exists>tx ty sx sy.
     train_x = Inr tx \<and> train_y = Inr ty \<and> test_x = Inr sx \<and> test_y_actual = Inr sy \<and>
     length ty = length tx \<and> length sy = length sx \<and>
     (\<forall>k < length tx. ty ! k = (sin (tx ! k ! 0) + cos (tx ! k ! 1)) * (2 * pi)) \<and>
     (\<forall>k < length sx. sy ! k = (sin (sx ! k ! 0) + cos (sx ! k ! 1)) * (2 * pi))"
  by (simp add: train_x_grid train_y_grid test_x_grid test_y_actual_grid)

theorem targets_follow_formula_witness:
  "\<exists>tx ty sx sy.
     train_x = Inr tx \<and> train_y = Inr ty \<and> test_x = Inr sx \<and> test_y_actual = Inr sy \<and>
     (5050::nat) < length tx \<and> (55::nat) < length sx \<and>
     ty ! 5050 = (sin (50 / 99) + cos (50 / 99)) * (2 * pi) \<and>
     sy ! 55 = (sin (5 / 9) + cos (5 / 9)) * (2 * pi)"
proof -
  from targets_follow_formula obtain tx ty sx sy where
    h: "train_x = Inr tx" "train_y = Inr ty" "test_x = Inr sx" "test_y_actual = Inr sy"
      "\<forall>k < length tx. ty ! k = (sin (tx ! k ! 0) + cos (tx ! k ! 1)) * (2 * pi)"
      "\<forall>k < length sx. sy ! k = (sin (sx ! k ! 0) + cos (sx ! k ! 1)) * (2 * pi)"
    by blast
  have tx: "tx = grid 100" and sx: "sx = grid 10"
    using h by (simp_all add: train_x_grid test_x_grid)
  have l: "(5050::nat) < length tx" "(55::nat) < length sx"
    by (simp_all add: tx sx grid_length)
  have r: "tx ! 5050 = [50 / 99, 50 / 99]" "sx ! 55 = [5 / 9, 5 / 9]"
    by (simp_all add: tx sx grid_nth grid_point_def)
  have "ty ! 5050 = (sin (tx ! 5050 ! 0) + cos (tx ! 5050 ! 1)) * (2 * pi)"
    using h(5) l(1) by blast
  moreover have "sy ! 55 = (sin (sx ! 55 ! 0) + cos (sx ! 55 ! 1)) * (2 * pi)"
    using h(6) l(2) by blast
  ultimately have "ty ! 5050 = (sin (50 / 99) + cos (50 / 99)) * (2 * pi)"
    "sy ! 55 = (sin (5 / 9) + cos (5 / 9)) * (2 * pi)"
    by (simp_all add: r)
  then show ?thesis
    using h(1-4) l by blast
qed

text \<open>
  Claim C5. The training inputs are \<open>100^2 = 10000\<close> rows of two coordinates, the targets
  have one entry per row, and every entry is finite: in the model every entry is a real
  number, and the entries are bounded, by \<open>1\<close> for the inputs and by \<open>4*pi\<close> for the targets.
\<close>

theorem training_data_invariants:
  "\<exists>tx ty.
     train_x = Inr tx \<and> train_y = Inr ty \<and>
     length tx = 100 ^ 2 \<and> length tx = 10000 \<and>
     (\<forall>row \<in> set tx. length row = 2) \<and>
     length ty = length tx \<and>
     (\<forall>row \<in> set tx. \<forall>v \<in> set row. \<bar>v\<bar> \<le> 1) \<and>
     (\<forall>v \<in> set ty. \<bar>v\<bar> \<le> 4 * pi)"
proof -
  have "\<bar>v\<bar> \<le> 1" if "row \<in> set (grid 100)" "v \<in> set row" for row v
    using grid_bounds_all [of 100 row v] that by simp
  moreover have "\<bar>v\<bar> \<le> 4 * pi"
    if "v \<in> set (map (\<lambda>row. (sin (row ! 0) + cos (row ! 1)) * (2 * pi)) (grid 100))" for v
    using that target_bound by auto
  ultimately show ?thesis
    by (simp add: train_x_grid train_y_grid grid_length grid_row_length)
qed

theorem training_data_invariants_witness:
  "\<exists>tx ty. train_x = Inr tx \<and> train_y = Inr ty \<and> tx ! 9999 \<in> set tx \<and> ty ! 0 \<in> set ty \<and>
     length (tx ! 9999) = 2 \<and> (\<forall>v \<in> set (tx ! 9999). \<bar>v\<bar> \<le> 1) \<and> \<bar>ty ! 0\<bar> \<le> 4 * pi"
proof -
  from training_data_invariants obtain tx ty where
    h: "train_x = Inr tx" "train_y = Inr ty" "length tx = 10000" "length ty = length tx"
      "\<forall>row \<in> set tx. length row = 2"
      "\<forall>row \<in> set tx. \<forall>v \<in> set row. \<bar>v\<bar> \<le> 1" "\<forall>v \<in> set ty. \<bar>v\<bar> \<le> 4 * pi"
    by blast
  have "tx ! 9999 \<in> set tx" "ty ! 0 \<in> set ty"
    using h by simp_all
  then show ?thesis
    using h by blast
qed

text \<open>
  Claim C4, as stated: no point of the test grid is a point of the training grid. It
  fails: \<open>i/9 = 11*i/99\<close>, so the test point with \<open>i = j = 1\<close> (row \<open>11\<close> of \<^verbatim>\<open>test_x\<close>) is
  the training point with \<open>i = j = 11\<close> (row \<open>1111\<close> of \<^verbatim>\<open>train_x\<close>). The two quotients are the
  same real number, so they are also the same after rounding to a float.
\<close>

theorem test_grid_held_out_counterexample:
  "train_x = Inr (grid 100) \<and> test_x = Inr (grid 10) \<and>
   1111 < length (grid 100) \<and> 11 < length (grid 10) \<and>
   grid 10 ! 11 = grid 100 ! 1111"
  by (simp add: train_x_grid test_x_grid grid_length grid_nth grid_point_def)

text \<open>
  Claim C4, amended. The test grid is not held out: every point \<open>(i/9, j/9)\<close> of the
  test grid is the point with indices \<open>(11*i, 11*j)\<close> of the training grid.
\<close>

theorem test_grid_within_training_grid:
  "\<exists>tx sx. train_x = Inr tx \<and> test_x = Inr sx \<and> length sx = 10 ^ 2 \<and>
     (\<forall>i < 10. \<forall>j < 10. 11 * i * 100 + 11 * j < length tx \<and>
        sx ! (i * 10 + j) = tx ! (11 * i * 100 + 11 * j))"
proof -
  have "11 * i * 100 + 11 * j < length (grid 100) \<and>
        grid 10 ! (i * 10 + j) = grid 100 ! (11 * i * 100 + 11 * j)"
    if "i < 10" "j < 10" for i j :: nat
  proof -
    have a: "11 * i < 100" "11 * j < 100" using that by simp_all
    have k: "11 * i * 100 + 11 * j < 100 * 100"
      using index_in_grid [OF a] .
    have k': "i * 10 + j < 10 * 10"
      using index_in_grid [OF that] .
    have "grid_point 10 (i * 10 + j) = grid_point 100 (11 * i * 100 + 11 * j)"
      using grid_point_at [OF that] grid_point_at [OF a] by simp
    then show ?thesis
      using k k' by (simp add: grid_length grid_nth)
  qed
  then show ?thesis
    by (simp add: train_x_grid test_x_grid grid_length)
qed

theorem test_grid_within_training_grid_witness:
  "\<exists>tx sx. train_x = Inr tx \<and> test_x = Inr sx \<and> (9::nat) < 10 \<and> (3::nat) < 10 \<and>
     sx ! 93 = tx ! 9933"
proof -
  from test_grid_within_training_grid obtain tx sx where
    h: "train_x = Inr tx" "test_x = Inr sx"
      "\<forall>i < 10. \<forall>j < 10. 11 * i * 100 + 11 * j < length tx \<and>
         sx ! (i * 10 + j) = tx ! (11 * i * 100 + 11 * j)"
    by blast
  have c: "(9::nat) < 10" "(3::nat) < 10"
    by simp_all
  with h(3) have "sx ! (9 * 10 + 3) = tx ! (11 * 9 * 100 + 11 * 3)"
    by blast
  then have "sx ! 93 = tx ! 9933"
    by simp
  then show ?thesis
    using h(1,2) c by blast
qed

subsection \<open>Rules for runs\<close>

lemma raises_append: "raises (xs @ ys) = raises xs @ raises ys"
  by (simp add: raises_def)

lemma bind_Inr:
  "bind m f s = (Inr b, s') \<longleftrightarrow> (\<exists>a s1. m s = (Inr a, s1) \<and> f a s1 = (Inr b, s'))"
  by (auto simp: bind_def split: prod.splits sum.splits)

lemma ret_Inr: "ret a s = (Inr b, s') \<longleftrightarrow> b = a \<and> s' = s"
  by (auto simp: ret_def)

lemma call_lib_Inr:
  "call_lib c f s = (Inr a, s') \<longleftrightarrow>
     (\<exists>w'. f (world s) = (Inr a, w') \<and> s' = \<lparr>world = w', trace = trace s @ [(c, Returned)]\<rparr>)"
  by (auto simp: call_lib_def split: prod.splits)

lemma call_real_Inr:
  "call_real c f s = (Inr v, s') \<longleftrightarrow>
     (\<exists>w'. f (world s) = (Inr v, w') \<and> s' = \<lparr>world = w', trace = trace s @ [(c, Gave v)]\<rparr>)"
  by (auto simp: call_real_def split: prod.splits)

lemma call_py_Inr:
  "call_py c r s = (Inr a, s') \<longleftrightarrow>
     r = Inr a \<and> s' = \<lparr>world = world s, trace = trace s @ [(c, Returned)]\<rparr>"
  by (auto simp: call_py_def call_lib_Inr)

lemma lib_effect_Inr:
  "lib_effect L c s = (Inr u, s') \<longleftrightarrow>
     (\<exists>w'. effect L c (world s) = (Inr (), w') \<and>
        s' = \<lparr>world = w', trace = trace s @ [(c, Returned)]\<rparr>)"
  by (auto simp: lib_effect_def call_lib_Inr)

lemma ends_at_raise_Inl:
  "ends_at_raise new (Inl e) \<longleftrightarrow> (\<exists>pre c. new = pre @ [(c, Raised e)] \<and> raises pre = [])"
  by (simp add: ends_at_raise_def)

lemma ends_at_raise_Inr: "ends_at_raise new (Inr a) \<longleftrightarrow> raises new = []"
  by (simp add: ends_at_raise_def)

lemma unhandled_Inl:
  "unhandled new (Inl e) \<longleftrightarrow> (\<exists>pre c. raises pre = [] \<and>
     (new = pre @ [(c, Raised e)] \<or>
      new = pre @ [(c, Raised e), (ExitToeplitz, Returned)] \<or>
      (\<exists>e0 e1. e = Chained e0 e1 \<and>
         new = pre @ [(c, Raised e0), (ExitToeplitz, Raised e1)])))"
  by (simp add: unhandled_def)

lemma unhandled_Inr: "unhandled new (Inr a) \<longleftrightarrow> raises new = []"
  by (simp add: unhandled_def)

lemma straight_ret: "straight (ret a)"
  by (simp add: straight_def ret_def ends_at_raise_def raises_def)

lemma straight_call_lib: "straight (call_lib c f)"
proof -
  have "\<exists>new. trace (snd (call_lib c f s)) = trace s @ new \<and>
          ends_at_raise new (fst (call_lib c f s))" for s
  proof (cases "f (world s)")
    case (Pair r w')
    have "ends_at_raise [(c, outcome_of r)] r"
      by (cases r) (auto simp: ends_at_raise_def raises_def)
    with Pair show ?thesis
      by (simp add: call_lib_def)
  qed
  then show ?thesis
    by (simp add: straight_def)
qed

lemma straight_call_real: "straight (call_real c f)"
proof -
  have "\<exists>new. trace (snd (call_real c f s)) = trace s @ new \<and>
          ends_at_raise new (fst (call_real c f s))" for s
  proof (cases "f (world s)")
    case (Pair r w')
    have "ends_at_raise [(c, outcome_real r)] r"
      by (cases r) (auto simp: ends_at_raise_def raises_def)
    with Pair show ?thesis
      by (simp add: call_real_def)
  qed
  then show ?thesis
    by (simp add: straight_def)
qed

lemma straight_call_py: "straight (call_py c r)"
  by (simp add: call_py_def straight_call_lib)

lemma straight_lib_effect: "straight (lib_effect L c)"
  by (simp add: lib_effect_def straight_call_lib)

lemma ends_at_raise_append:
  assumes "ends_at_raise new1 (Inr a)" "ends_at_raise new2 r"
  shows "ends_at_raise (new1 @ new2) r"
proof (cases r)
  case (Inl e)
  with assms(2) obtain pre c where "new2 = pre @ [(c, Raised e)]" "raises pre = []"
    by (auto simp: ends_at_raise_def)
  with assms(1) have "new1 @ new2 = (new1 @ pre) @ [(c, Raised e)]" "raises (new1 @ pre) = []"
    by (simp_all add: ends_at_raise_def raises_append)
  with Inl show ?thesis
    unfolding ends_at_raise_def by (simp only: sum.case) blast
next
  case (Inr b)
  with assms show ?thesis
    by (simp add: ends_at_raise_def raises_append)
qed

lemma unhandled_append:
  assumes "raises new1 = []" "unhandled new2 r"
  shows "unhandled (new1 @ new2) r"
proof (cases r)
  case (Inl e)
  with assms(2) obtain pre c where pre: "raises pre = []" and
    shape: "new2 = pre @ [(c, Raised e)] \<or>
      new2 = pre @ [(c, Raised e), (ExitToeplitz, Returned)] \<or>
      (\<exists>e0 e1. e = Chained e0 e1 \<and> new2 = pre @ [(c, Raised e0), (ExitToeplitz, Raised e1)])"
    by (auto simp: unhandled_def)
  have "raises (new1 @ pre) = []"
    using assms(1) pre by (simp add: raises_append)
  moreover from shape have
    "new1 @ new2 = (new1 @ pre) @ [(c, Raised e)] \<or>
      new1 @ new2 = (new1 @ pre) @ [(c, Raised e), (ExitToeplitz, Returned)] \<or>
      (\<exists>e0 e1. e = Chained e0 e1 \<and>
         new1 @ new2 = (new1 @ pre) @ [(c, Raised e0), (ExitToeplitz, Raised e1)])"
    by auto
  ultimately show ?thesis
    unfolding unhandled_def Inl by (simp only: sum.case) blast
next
  case (Inr b)
  with assms show ?thesis
    by (simp add: unhandled_def raises_append)
qed

lemma straight_bind:
  assumes "straight m" "\<And>a. straight (f a)"
  shows "straight (bind m f)"
proof -
  have "\<exists>new. trace (snd (bind m f s)) = trace s @ new \<and> ends_at_raise new (fst (bind m f s))"
    for s
  proof -
    obtain r1 s1 where m: "m s = (r1, s1)"
      by (cases "m s")
    from assms(1) have "\<exists>new. trace (snd (m s)) = trace s @ new \<and> ends_at_raise new (fst (m s))"
      unfolding straight_def by (rule spec)
    then obtain new1 where n1: "trace s1 = trace s @ new1" "ends_at_raise new1 r1"
      using m by auto
    show ?thesis
    proof (cases r1)
      case (Inl e)
      have b: "bind m f s = (Inl e, s1)"
        using m Inl by (simp add: bind_def)
      have "ends_at_raise new1 (fst (bind m f s))"
        using n1(2) Inl by (simp add: b ends_at_raise_Inl)
      then show ?thesis
        using n1(1) by (intro exI [of _ new1]) (simp add: b)
    next
      case (Inr a)
      from assms(2) [of a] obtain new2 where
        n2: "trace (snd (f a s1)) = trace s1 @ new2" "ends_at_raise new2 (fst (f a s1))"
        unfolding straight_def by blast
      have b: "bind m f s = f a s1"
        using m Inr by (simp add: bind_def)
      have "ends_at_raise (new1 @ new2) (fst (f a s1))"
        using n1(2) n2(2) Inr by (simp add: ends_at_raise_append)
      then show ?thesis
        using n1(1) n2(1) by (intro exI [of _ "new1 @ new2"]) (simp add: b)
    qed
  qed
  then show ?thesis
    by (simp add: straight_def)
qed

lemma straight_for_loop:
  assumes "\<And>i a. straight (body i a)"
  shows "straight (for_loop is body a)"
proof (induction "is" arbitrary: a)
  case Nil
  show ?case by (simp add: straight_ret)
next
  case (Cons i "is")
  show ?case
    by (simp add: straight_bind assms Cons.IH)
qed

lemma straight_propagating: "straight m \<Longrightarrow> propagating m"
proof -
  have "unhandled new r" if "ends_at_raise new r" for new and r :: "py_error + 'c"
    using that by (cases r) (auto simp: ends_at_raise_def unhandled_def)
  then show "straight m \<Longrightarrow> propagating m"
    unfolding straight_def propagating_def by blast
qed

lemma propagating_bind:
  assumes "propagating m" "\<And>a. propagating (f a)"
  shows "propagating (bind m f)"
proof -
  have "\<exists>new. trace (snd (bind m f s)) = trace s @ new \<and> unhandled new (fst (bind m f s))"
    for s
  proof -
    obtain r1 s1 where m: "m s = (r1, s1)"
      by (cases "m s")
    from assms(1) have "\<exists>new. trace (snd (m s)) = trace s @ new \<and> unhandled new (fst (m s))"
      unfolding propagating_def by (rule spec)
    then obtain new1 where n1: "trace s1 = trace s @ new1" "unhandled new1 r1"
      using m by auto
    show ?thesis
    proof (cases r1)
      case (Inl e)
      have b: "bind m f s = (Inl e, s1)"
        using m Inl by (simp add: bind_def)
      have "unhandled new1 (fst (bind m f s))"
        using n1(2) Inl by (simp add: b unhandled_Inl)
      then show ?thesis
        using n1(1) by (intro exI [of _ new1]) (simp add: b)
    next
      case (Inr a)
      from assms(2) [of a] obtain new2 where
        n2: "trace (snd (f a s1)) = trace s1 @ new2" "unhandled new2 (fst (f a s1))"
        unfolding propagating_def by blast
      have b: "bind m f s = f a s1"
        using m Inr by (simp add: bind_def)
      have "unhandled (new1 @ new2) (fst (f a s1))"
        using n1(2) n2(2) Inr by (simp add: unhandled_append unhandled_Inr)
      then show ?thesis
        using n1(1) n2(1) by (intro exI [of _ "new1 @ new2"]) (simp add: b)
    qed
  qed
  then show ?thesis
    by (simp add: propagating_def)
qed

lemma lib_effect_run:
  obtains r w' where
    "lib_effect L c s = (r, \<lparr>world = w', trace = trace s @ [(c, outcome_of r)]\<rparr>)"
  by (cases "effect L c (world s)") (simp add: lib_effect_def call_lib_def)

lemma propagating_with:
  assumes "straight body"
  shows "propagating (with_ctx (lib_effect L c) (lib_effect L ExitToeplitz) body)"
proof -
  let ?run = "with_ctx (lib_effect L c) (lib_effect L ExitToeplitz) body"
  have "\<exists>new. trace (snd (?run s)) = trace s @ new \<and> unhandled new (fst (?run s))" for s
  proof -
    obtain r0 w1 where
      enter: "lib_effect L c s = (r0, \<lparr>world = w1, trace = trace s @ [(c, outcome_of r0)]\<rparr>)"
      by (rule lib_effect_run)
    let ?s1 = "\<lparr>world = w1, trace = trace s @ [(c, outcome_of r0)]\<rparr>"
    show ?thesis
    proof (cases r0)
      case (Inl e)
      have run: "?run s = (Inl e, ?s1)"
        using enter Inl by (simp add: with_ctx_def)
      have "unhandled [(c, Raised e)] (fst (?run s))"
        unfolding run fst_conv unhandled_Inl
        by (intro exI [of _ "[]"] exI [of _ c]) (simp add: raises_def)
      then show ?thesis
        using Inl by (intro exI [of _ "[(c, Raised e)]"]) (simp add: run)
    next
      case (Inr u)
      obtain rb s2 where body: "body ?s1 = (rb, s2)"
        by (cases "body ?s1")
      from assms have "\<exists>new. trace (snd (body ?s1)) = trace ?s1 @ new \<and>
          ends_at_raise new (fst (body ?s1))"
        unfolding straight_def by (rule spec)
      then obtain newb where
        nb: "trace s2 = trace s @ [(c, Returned)] @ newb" "ends_at_raise newb rb"
        using body Inr by auto
      obtain rx w3 where
        exit: "lib_effect L ExitToeplitz s2 =
          (rx, \<lparr>world = w3, trace = trace s2 @ [(ExitToeplitz, outcome_of rx)]\<rparr>)"
        by (rule lib_effect_run)
      let ?s3 = "\<lparr>world = w3, trace = trace s2 @ [(ExitToeplitz, outcome_of rx)]\<rparr>"
      let ?new = "[(c, Returned)] @ newb @ [(ExitToeplitz, outcome_of rx)]"
      have tr: "trace ?s3 = trace s @ ?new"
        using nb(1) by simp
      have st: "snd (?run s) = ?s3"
        using enter Inr body exit by (simp add: with_ctx_def split: sum.splits)
      have "unhandled ?new (fst (?run s))"
      proof (cases rx)
        case xl: (Inl e1)
        show ?thesis
        proof (cases rb)
          case bl: (Inl e0)
          from nb(2) bl obtain pre cb where
            pre: "newb = pre @ [(cb, Raised e0)]" "raises pre = []"
            by (auto simp: ends_at_raise_Inl)
          have run: "fst (?run s) = Inl (Chained e0 e1)"
            using enter Inr body exit xl bl by (simp add: with_ctx_def)
          have "raises ((c, Returned) # pre) = []"
            using pre(2) by (simp add: raises_def)
          moreover have "?new = ((c, Returned) # pre) @ [(cb, Raised e0), (ExitToeplitz, Raised e1)]"
            using pre(1) xl by simp
          ultimately show ?thesis
            unfolding run unhandled_Inl by blast
        next
          case br: (Inr a)
          have run: "fst (?run s) = Inl e1"
            using enter Inr body exit xl br by (simp add: with_ctx_def)
          have "raises ((c, Returned) # newb) = []"
            using nb(2) br by (simp add: raises_def ends_at_raise_Inr)
          moreover have "?new = ((c, Returned) # newb) @ [(ExitToeplitz, Raised e1)]"
            using xl by simp
          ultimately show ?thesis
            unfolding run unhandled_Inl by blast
        qed
      next
        case xr: (Inr u')
        have run: "fst (?run s) = rb"
          using enter Inr body exit xr by (simp add: with_ctx_def)
        show ?thesis
        proof (cases rb)
          case bl: (Inl e0)
          from nb(2) bl obtain pre cb where
            pre: "newb = pre @ [(cb, Raised e0)]" "raises pre = []"
            by (auto simp: ends_at_raise_Inl)
          have "raises ((c, Returned) # pre) = []"
            using pre(2) by (simp add: raises_def)
          moreover have "?new = ((c, Returned) # pre) @ [(cb, Raised e0), (ExitToeplitz, Returned)]"
            using pre(1) xr by simp
          ultimately show ?thesis
            unfolding run bl unhandled_Inl by blast
        next
          case br: (Inr a)
          show ?thesis
            using nb(2) br xr
            by (simp add: run unhandled_Inr ends_at_raise_Inr raises_def)
        qed
      qed
      moreover have "trace (snd (?run s)) = trace s @ ?new"
        by (simp only: st tr)
      ultimately show ?thesis
        by blast
    qed
  qed
  then show ?thesis
    by (simp add: propagating_def)
qed

subsection \<open>No cell handles an exception\<close>

lemma straight_data_cell: "straight (data_cell L)"
  unfolding data_cell_def
  by (intro straight_bind straight_call_py straight_lib_effect straight_ret allI)

lemma straight_init: "straight (init L tx ty lik)"
  unfolding init_def
  by (intro straight_bind straight_lib_effect straight_ret allI)

lemma straight_forward: "straight (forward L self x)"
  unfolding forward_def
  by (intro straight_bind straight_call_lib straight_ret allI)

lemma straight_model_cell: "straight (model_cell L tx ty)"
  unfolding model_cell_def
  by (intro straight_bind straight_lib_effect straight_init straight_ret allI)

lemma straight_training_iteration: "straight (training_iteration L optimizer tx ty i model)"
  unfolding training_iteration_def
  by (intro straight_bind straight_lib_effect straight_call_lib straight_call_real
      straight_call_py straight_ret allI)

lemma propagating_training_cell: "propagating (training_cell L tx ty model)"
  unfolding training_cell_def
  by (intro propagating_bind propagating_with straight_for_loop straight_training_iteration
      straight_propagating [OF straight_lib_effect] straight_propagating [OF straight_ret])

lemma straight_ax_plot: "straight (ax_plot L title)"
  unfolding ax_plot_def
  by (intro straight_bind straight_lib_effect allI)

lemma straight_eval_cell: "straight (eval_cell L model)"
  unfolding eval_cell_def
  by (intro straight_bind straight_lib_effect straight_call_lib straight_call_py
      straight_ax_plot straight_ret allI)

lemma propagating_notebook: "propagating (notebook L)"
proof -
  have "propagating (case p of (tx, ty) \<Rightarrow>
      bind (model_cell L tx ty) (\<lambda>model.
      bind (training_cell L tx ty model) (\<lambda>model. eval_cell L model)))"
    for p :: "tensor2 \<times> tensor1"
    unfolding split_def
    by (intro propagating_bind propagating_training_cell
        straight_propagating [OF straight_model_cell]
        straight_propagating [OF straight_eval_cell])
  then show ?thesis
    unfolding notebook_def
    by (intro propagating_bind straight_propagating [OF straight_data_cell])
qed

text \<open>
  Claim C6. The notebook handles no exception. In every run, from any state and against
  any library: if the run returns, no call raised; if it raises \<open>e\<close>, then no call raised
  before the call \<open>c\<close> that did, and either \<open>c\<close> raised \<open>e\<close> and was the last call, or \<open>c\<close> raised
  \<open>e\<close> inside the \<^verbatim>\<open>with\<close> block and only its exit ran afterwards, or that exit raised
  too and \<open>e\<close> is its exception with the one of \<open>c\<close> as context. No call is repeated, nothing
  is caught, and no exception is replaced by one of the notebook's own. The same holds of
  the forward method, which the library calls back: it ends at the first call that raises.
\<close>

theorem exceptions_propagate_unhandled:
  "(notebook L s = (r, s') \<longrightarrow>
     (\<exists>new. trace s' = trace s @ new \<and>
        (case r of
           Inr result \<Rightarrow> raises new = []
         | Inl e \<Rightarrow> \<exists>pre c. raises pre = [] \<and>
             (new = pre @ [(c, Raised e)] \<or>
              new = pre @ [(c, Raised e), (ExitToeplitz, Returned)] \<or>
              (\<exists>e0 e1. e = Chained e0 e1 \<and>
                 new = pre @ [(c, Raised e0), (ExitToeplitz, Raised e1)]))))) \<and>
   (forward L self x s = (rf, sf) \<longrightarrow>
     (\<exists>new. trace sf = trace s @ new \<and>
        (case rf of
           Inr d \<Rightarrow> raises new = []
         | Inl e \<Rightarrow> \<exists>pre c. raises pre = [] \<and> new = pre @ [(c, Raised e)])))"
proof (intro conjI impI)
  assume run: "notebook L s = (r, s')"
  have "\<exists>new. trace (snd (notebook L s)) = trace s @ new \<and> unhandled new (fst (notebook L s))"
    using propagating_notebook [of L] unfolding propagating_def by (rule spec)
  then show "\<exists>new. trace s' = trace s @ new \<and>
        (case r of
           Inr result \<Rightarrow> raises new = []
         | Inl e \<Rightarrow> \<exists>pre c. raises pre = [] \<and>
             (new = pre @ [(c, Raised e)] \<or>
              new = pre @ [(c, Raised e), (ExitToeplitz, Returned)] \<or>
              (\<exists>e0 e1. e = Chained e0 e1 \<and>
                 new = pre @ [(c, Raised e0), (ExitToeplitz, Raised e1)])))"
    using run by (simp add: unhandled_def)
next
  assume run: "forward L self x s = (rf, sf)"
  have "\<exists>new. trace (snd (forward L self x s)) = trace s @ new \<and>
      ends_at_raise new (fst (forward L self x s))"
    using straight_forward [of L self x] unfolding straight_def by (rule spec)
  then obtain new where n: "trace sf = trace s @ new" "ends_at_raise new rf"
    using run by auto
  have "case rf of
           Inr d \<Rightarrow> raises new = []
         | Inl e \<Rightarrow> \<exists>pre c. raises pre = [] \<and> new = pre @ [(c, Raised e)]"
    using n(2) by (cases rf) (auto simp: ends_at_raise_def)
  with n(1) show "\<exists>new. trace sf = trace s @ new \<and>
        (case rf of
           Inr d \<Rightarrow> raises new = []
         | Inl e \<Rightarrow> \<exists>pre c. raises pre = [] \<and> new = pre @ [(c, Raised e)])"
    by blast
qed

theorem exceptions_propagate_unhandled_witness:
  "notebook no_cuda_library start =
     (Inl (LibraryError ''no CUDA''),
      \<lparr>world = 0, trace = [(TensorOp ''train_x'', Returned),
         (Cuda ''train_x'', Raised (LibraryError ''no CUDA''))]\<rparr>) \<and>
   (\<exists>new. [(TensorOp ''train_x'', Returned),
            (Cuda ''train_x'', Raised (LibraryError ''no CUDA''))] = trace start @ new \<and>
      (\<exists>pre c. raises pre = [] \<and>
         (new = pre @ [(c, Raised (LibraryError ''no CUDA''))] \<or>
          new = pre @ [(c, Raised (LibraryError ''no CUDA'')), (ExitToeplitz, Returned)] \<or>
          (\<exists>e0 e1. LibraryError ''no CUDA'' = Chained e0 e1 \<and>
             new = pre @ [(c, Raised e0), (ExitToeplitz, Raised e1)]))))"
proof -
  have run: "notebook no_cuda_library start =
     (Inl (LibraryError ''no CUDA''),
      \<lparr>world = 0, trace = [(TensorOp ''train_x'', Returned),
         (Cuda ''train_x'', Raised (LibraryError ''no CUDA''))]\<rparr>)"
    by (simp add: notebook_def data_cell_def bind_def call_py_def call_lib_def lib_effect_def
        no_cuda_library_def quiet_library_def start_def train_x_grid)
  note T = exceptions_propagate_unhandled [of no_cuda_library start
      "Inl (LibraryError ''no CUDA'')"
      "\<lparr>world = 0, trace = [(TensorOp ''train_x'', Returned),
         (Cuda ''train_x'', Raised (LibraryError ''no CUDA''))]\<rparr>"]
  from T [THEN conjunct1, THEN mp, OF run] show ?thesis
    using run by simp
qed

subsection \<open>The training loop\<close>

lemma with_ctx_Inr:
  "with_ctx enter exit body s = (Inr a, s') \<longleftrightarrow>
     (\<exists>u s1 s2 u'. enter s = (Inr u, s1) \<and> body s1 = (Inr a, s2) \<and> exit s2 = (Inr u', s'))"
  by (auto simp: with_ctx_def split: prod.splits sum.splits)

lemma training_iteration_Inr:
  assumes "training_iteration L optimizer tx ty i model s = (Inr model', s')"
  shows "\<exists>out v. iteration_step L (lr optimizer) tx ty model (world s) out v model' (world s') \<and>
    trace s' = trace s @ iteration_trace tx (lr optimizer) i v"
  using assms unfolding training_iteration_def iteration_step_def
  by (auto simp: bind_Inr ret_Inr call_lib_Inr call_real_Inr call_py_Inr lib_effect_Inr
      iteration_trace_def num_iter_def)

lemma training_loop_Inr:
  "for_loop is (training_iteration L optimizer tx ty) model s = (Inr model', s') \<Longrightarrow>
     \<exists>ms ws outs vs.
       length ms = Suc (length is) \<and> length ws = Suc (length is) \<and>
       length outs = length is \<and> length vs = length is \<and>
       ms ! 0 = model \<and> ws ! 0 = world s \<and>
       (\<forall>k < length is.
          iteration_step L (lr optimizer) tx ty (ms ! k) (ws ! k) (outs ! k) (vs ! k)
            (ms ! Suc k) (ws ! Suc k)) \<and>
       ms ! length is = model' \<and> ws ! length is = world s' \<and>
       trace s' = trace s @
         concat (map (\<lambda>(i, v). iteration_trace tx (lr optimizer) i v) (zip is vs))"
proof (induction "is" arbitrary: model s)
  case Nil
  then have "model' = model" "s' = s"
    by (simp_all add: ret_Inr)
  then show ?case
    by (intro exI [of _ "[model]"] exI [of _ "[world s]"] exI [of _ "[]"]) simp
next
  case (Cons i "is")
  from Cons.prems obtain model1 s1 where
    step: "training_iteration L optimizer tx ty i model s = (Inr model1, s1)" and
    rest: "for_loop is (training_iteration L optimizer tx ty) model1 s1 = (Inr model', s')"
    by (auto simp: bind_Inr)
  from training_iteration_Inr [OF step] obtain out v where
    first: "iteration_step L (lr optimizer) tx ty model (world s) out v model1 (world s1)" and
    v: "trace s1 = trace s @ iteration_trace tx (lr optimizer) i v"
    by blast
  from Cons.IH [OF rest] obtain ms ws outs vs where
    len: "length ms = Suc (length is)" "length ws = Suc (length is)"
      "length outs = length is" "length vs = length is" and
    init: "ms ! 0 = model1" "ws ! 0 = world s1" and
    steps: "\<forall>k < length is.
          iteration_step L (lr optimizer) tx ty (ms ! k) (ws ! k) (outs ! k) (vs ! k)
            (ms ! Suc k) (ws ! Suc k)" and
    final: "ms ! length is = model'" "ws ! length is = world s'" and
    tr: "trace s' = trace s1 @
         concat (map (\<lambda>(i, v). iteration_trace tx (lr optimizer) i v) (zip is vs))"
    by blast
  have all: "iteration_step L (lr optimizer) tx ty ((model # ms) ! k) ((world s # ws) ! k)
      ((out # outs) ! k) ((v # vs) ! k) ((model # ms) ! Suc k) ((world s # ws) ! Suc k)"
    if "k < length (i # is)" for k
  proof (cases k)
    case 0
    with first init show ?thesis by simp
  next
    case (Suc j)
    with that steps show ?thesis by simp
  qed
  show ?case
    apply (intro exI [of _ "model # ms"] exI [of _ "world s # ws"] exI [of _ "out # outs"]
        exI [of _ "v # vs"] conjI)
    using len final v tr all by simp_all
qed

lemma map_zip_upt:
  "length vs = n \<Longrightarrow> map (\<lambda>(i, v). f i v) (zip [0..<n] vs) = map (\<lambda>i. f i (vs ! i)) [0..<n]"
  by (simp add: list_eq_iff_nth_eq)

lemma returns_ret: "returns (ret a)"
  by (simp add: returns_def ret_def)

lemma returns_bind:
  assumes "returns m" "\<And>a. returns (f a)"
  shows "returns (bind m f)"
proof -
  have "\<not> isl (fst (bind m f s))" for s
  proof (cases "m s")
    case (Pair r1 s1)
    from assms(1) have "\<not> isl (fst (m s))"
      unfolding returns_def by (rule spec)
    with Pair obtain a where "r1 = Inr a"
      by (cases r1) simp_all
    with Pair have "bind m f s = f a s1"
      by (simp add: bind_def)
    with assms(2) [of a] show ?thesis
      by (simp add: returns_def)
  qed
  then show ?thesis
    by (simp add: returns_def)
qed

lemma returns_for_loop:
  assumes "\<And>i a. returns (body i a)"
  shows "returns (for_loop is body a)"
proof (induction "is" arbitrary: a)
  case Nil
  show ?case by (simp add: returns_ret)
next
  case (Cons i "is")
  show ?case
    by (simp add: returns_bind assms Cons.IH)
qed

lemma returns_call_lib:
  assumes "\<And>w. \<not> isl (fst (f w))"
  shows "returns (call_lib c f)"
proof -
  have "\<not> isl (fst (call_lib c f s))" for s
    using assms [of "world s"] by (cases "f (world s)") (simp add: call_lib_def)
  then show ?thesis
    by (simp add: returns_def)
qed

lemma returns_call_real:
  assumes "\<And>w. \<not> isl (fst (f w))"
  shows "returns (call_real c f)"
proof -
  have "\<not> isl (fst (call_real c f s))" for s
    using assms [of "world s"] by (cases "f (world s)") (simp add: call_real_def)
  then show ?thesis
    by (simp add: returns_def)
qed

lemma returns_call_py: "returns (call_py c (Inr a))"
  by (simp add: call_py_def returns_call_lib)

lemma returns_lib_effect: "never_raises L \<Longrightarrow> returns (lib_effect L c)"
  by (simp add: lib_effect_def returns_call_lib never_raises_def)

lemma returns_with_ctx:
  assumes "returns enter" "returns exit" "returns body"
  shows "returns (with_ctx enter exit body)"
proof -
  have "\<not> isl (fst (with_ctx enter exit body s))" for s
  proof -
    obtain r0 s1 where e: "enter s = (r0, s1)" by (cases "enter s")
    obtain rb s2 where b: "body s1 = (rb, s2)" by (cases "body s1")
    obtain rx s3 where x: "exit s2 = (rx, s3)" by (cases "exit s2")
    have "\<not> isl r0" "\<not> isl rb" "\<not> isl rx"
      using assms e b x unfolding returns_def by (metis fst_conv)+
    then show ?thesis
      using e b x by (cases r0; cases rb; cases rx) (simp_all add: with_ctx_def)
  qed
  then show ?thesis
    by (simp add: returns_def)
qed

lemma returns_training_iteration:
  assumes "never_raises L"
  shows "returns (training_iteration L optimizer tx ty i model)"
  unfolding training_iteration_def
  using assms
  by (intro returns_bind returns_lib_effect returns_call_lib returns_call_real
      returns_call_py returns_ret) (simp_all add: never_raises_def)

lemma returns_training_cell:
  assumes "never_raises L"
  shows "returns (training_cell L tx ty model)"
  unfolding training_cell_def
  using assms
  by (intro returns_bind returns_with_ctx returns_for_loop returns_training_iteration
      returns_lib_effect returns_ret)

text \<open>
  Claim C2. The training cell builds the Adam optimizer with learning rate \<open>0.2\<close> and runs
  the loop \<^verbatim>\<open>num_iter = 20\<close> times. In a run that completes, the world goes through the
  set-up calls and then, for each \<open>i\<close> from \<open>0\<close> to \<open>19\<close> and in this order, through
  \<^verbatim>\<open>zero_grad\<close>, the model \<open>ms ! i\<close> applied to the training inputs, the marginal log
  likelihood of that output and the training targets (returning \<open>vs ! i\<close>), \<^verbatim>\<open>backward\<close> on
  the loss \<open>- vs ! i\<close>, and one step of the optimizer with rate \<open>0.2\<close>, which gives the
  parameter of the next model \<open>ms ! (i + 1)\<close>; the print of iteration \<open>i + 1\<close> of \<open>20\<close> with
  that loss comes between \<^verbatim>\<open>backward\<close> and the step. The cell returns the last model, in
  the world that the exit of the \<^verbatim>\<open>with\<close> block leaves, and the trace holds exactly these
  calls. Against a library that never raises, the run completes.
\<close>

theorem training_loop_twenty_iterations:
  "num_iter = 20 \<and>
   (training_cell L tx ty model s = (Inr model', s') \<longrightarrow>
     (\<exists>w1 w2 w3 w4 ms ws outs vs.
        effect L (SetTrain ''model'') (world s) = (Inr (), w1) \<and>
        effect L (SetTrain ''likelihood'') w1 = (Inr (), w2) \<and>
        effect L (NewAdam (2 / 10)) w2 = (Inr (), w3) \<and>
        effect L (New ''ExactMarginalLogLikelihood'') w3 = (Inr (), w4) \<and>
        effect L (EnterToeplitz False) w4 = (Inr (), ws ! 0) \<and>
        length ms = 21 \<and> length ws = 21 \<and> length outs = 20 \<and> length vs = 20 \<and>
        ms ! 0 = model \<and>
        (\<forall>i < 20. \<exists>wa wb wc wd.
           effect L ZeroGrad (ws ! i) = (Inr (), wa) \<and>
           exact_gp_call L (ms ! i) tx wa = (Inr (outs ! i), wb) \<and>
           mll_call L (ms ! i) (outs ! i) ty wb = (Inr (vs ! i), wc) \<and>
           backward L (- (vs ! i)) wc = (Inr (), wd) \<and>
           adam_step L (2 / 10) (ms ! i) wd =
             (Inr (log_outputscale (ms ! (i + 1))), ws ! (i + 1)) \<and>
           ms ! (i + 1) = (ms ! i)\<lparr>log_outputscale := log_outputscale (ms ! (i + 1))\<rparr>) \<and>
        ms ! 20 = model' \<and>
        effect L ExitToeplitz (ws ! 20) = (Inr (), world s') \<and>
        trace s' = trace s @
          [(SetTrain ''model'', Returned), (SetTrain ''likelihood'', Returned),
           (NewAdam (2 / 10), Returned), (New ''ExactMarginalLogLikelihood'', Returned),
           (EnterToeplitz False, Returned)] @
          concat (map (\<lambda>i.
            [(ZeroGrad, Returned), (ModelCall tx, Returned), (MllCall, Gave (vs ! i)),
             (Backward (- (vs ! i)), Returned),
             (Print (IterLine (i + 1) 20 (- (vs ! i))), Returned),
             (AdamStep (2 / 10), Returned)]) [0..<20]) @
          [(ExitToeplitz, Returned)])) \<and>
   (never_raises L \<longrightarrow> (\<exists>model' s'. training_cell L tx ty model s = (Inr model', s')))"
proof (intro conjI impI)
  show "num_iter = 20"
    by (simp add: num_iter_def)
next
  let ?opening = "[(SetTrain ''model'', Returned), (SetTrain ''likelihood'', Returned),
           (NewAdam (2 / 10), Returned), (New ''ExactMarginalLogLikelihood'', Returned),
           (EnterToeplitz False, Returned)]"
  assume "training_cell L tx ty model s = (Inr model', s')"
  then obtain w1 w2 w3 w4 w5 s2 where
    conf: "effect L (SetTrain ''model'') (world s) = (Inr (), w1)"
      "effect L (SetTrain ''likelihood'') w1 = (Inr (), w2)"
      "effect L (NewAdam (2 / 10)) w2 = (Inr (), w3)"
      "effect L (New ''ExactMarginalLogLikelihood'') w3 = (Inr (), w4)"
      "effect L (EnterToeplitz False) w4 = (Inr (), w5)" and
    loop: "for_loop [0..<20] (training_iteration L \<lparr>lr = 2 / 10\<rparr> tx ty) model
        \<lparr>world = w5, trace = trace s @ ?opening\<rparr> = (Inr model', s2)" and
    exit: "effect L ExitToeplitz (world s2) = (Inr (), world s')" and
    s': "trace s' = trace s2 @ [(ExitToeplitz, Returned)]"
    unfolding training_cell_def
    by (auto simp: bind_Inr ret_Inr lib_effect_Inr with_ctx_Inr range_py_def num_iter_def)
  from training_loop_Inr [OF loop] obtain ms ws outs vs where
    len: "length ms = 21" "length ws = 21" "length outs = 20" "length vs = 20" and
    init: "ms ! 0 = model" "ws ! 0 = w5" and
    steps: "\<forall>k < 20. iteration_step L (2 / 10) tx ty (ms ! k) (ws ! k) (outs ! k) (vs ! k)
            (ms ! Suc k) (ws ! Suc k)" and
    final: "ms ! 20 = model'" "ws ! 20 = world s2" and
    tr: "trace s2 = (trace s @ ?opening) @
         concat (map (\<lambda>(i, v). iteration_trace tx (2 / 10) i v) (zip [0..<20] vs))"
    by auto
  have "map (\<lambda>(i, v). iteration_trace tx (2 / 10) i v) (zip [0..<20] vs) =
      map (\<lambda>i. iteration_trace tx (2 / 10) i (vs ! i)) [0..<20]"
    using len(4) by (rule map_zip_upt)
  with tr s' have trace: "trace s' = trace s @ ?opening @
          concat (map (\<lambda>i.
            [(ZeroGrad, Returned), (ModelCall tx, Returned), (MllCall, Gave (vs ! i)),
             (Backward (- (vs ! i)), Returned),
             (Print (IterLine (i + 1) 20 (- (vs ! i))), Returned),
             (AdamStep (2 / 10), Returned)]) [0..<20]) @
          [(ExitToeplitz, Returned)]"
    by (simp add: iteration_trace_def)
  have threads: "\<forall>i < 20. \<exists>wa wb wc wd.
           effect L ZeroGrad (ws ! i) = (Inr (), wa) \<and>
           exact_gp_call L (ms ! i) tx wa = (Inr (outs ! i), wb) \<and>
           mll_call L (ms ! i) (outs ! i) ty wb = (Inr (vs ! i), wc) \<and>
           backward L (- (vs ! i)) wc = (Inr (), wd) \<and>
           adam_step L (2 / 10) (ms ! i) wd =
             (Inr (log_outputscale (ms ! (i + 1))), ws ! (i + 1)) \<and>
           ms ! (i + 1) = (ms ! i)\<lparr>log_outputscale := log_outputscale (ms ! (i + 1))\<rparr>"
    using steps unfolding iteration_step_def by simp
  show "\<exists>w1 w2 w3 w4 ms ws outs vs.
        effect L (SetTrain ''model'') (world s) = (Inr (), w1) \<and>
        effect L (SetTrain ''likelihood'') w1 = (Inr (), w2) \<and>
        effect L (NewAdam (2 / 10)) w2 = (Inr (), w3) \<and>
        effect L (New ''ExactMarginalLogLikelihood'') w3 = (Inr (), w4) \<and>
        effect L (EnterToeplitz False) w4 = (Inr (), ws ! 0) \<and>
        length ms = 21 \<and> length ws = 21 \<and> length outs = 20 \<and> length vs = 20 \<and>
        ms ! 0 = model \<and>
        (\<forall>i < 20. \<exists>wa wb wc wd.
           effect L ZeroGrad (ws ! i) = (Inr (), wa) \<and>
           exact_gp_call L (ms ! i) tx wa = (Inr (outs ! i), wb) \<and>
           mll_call L (ms ! i) (outs ! i) ty wb = (Inr (vs ! i), wc) \<and>
           backward L (- (vs ! i)) wc = (Inr (), wd) \<and>
           adam_step L (2 / 10) (ms ! i) wd =
             (Inr (log_outputscale (ms ! (i + 1))), ws ! (i + 1)) \<and>
           ms ! (i + 1) = (ms ! i)\<lparr>log_outputscale := log_outputscale (ms ! (i + 1))\<rparr>) \<and>
        ms ! 20 = model' \<and>
        effect L ExitToeplitz (ws ! 20) = (Inr (), world s') \<and>
        trace s' = trace s @
          [(SetTrain ''model'', Returned), (SetTrain ''likelihood'', Returned),
           (NewAdam (2 / 10), Returned), (New ''ExactMarginalLogLikelihood'', Returned),
           (EnterToeplitz False, Returned)] @
          concat (map (\<lambda>i.
            [(ZeroGrad, Returned), (ModelCall tx, Returned), (MllCall, Gave (vs ! i)),
             (Backward (- (vs ! i)), Returned),
             (Print (IterLine (i + 1) 20 (- (vs ! i))), Returned),
             (AdamStep (2 / 10), Returned)]) [0..<20]) @
          [(ExitToeplitz, Returned)]"
    apply (rule exI [of _ w1], rule exI [of _ w2], rule exI [of _ w3], rule exI [of _ w4],
        rule exI [of _ ms], rule exI [of _ ws], rule exI [of _ outs], rule exI [of _ vs])
    using conf init len threads final exit trace by simp
next
  assume "never_raises L"
  then have "returns (training_cell L tx ty model)"
    by (rule returns_training_cell)
  then have "\<not> isl (fst (training_cell L tx ty model s))"
    unfolding returns_def by (rule spec)
  then show "\<exists>model' s'. training_cell L tx ty model s = (Inr model', s')"
    by (cases "training_cell L tx ty model s"; cases "fst (training_cell L tx ty model s)") auto
qed

lemma quiet_library_never_raises: "never_raises quiet_library"
  by (simp add: never_raises_def quiet_library_def)

theorem training_loop_twenty_iterations_witness:
  "never_raises quiet_library \<and>
   (\<exists>model' s'. training_cell quiet_library [[0, 0]] [2 * pi] example_model start = (Inr model', s') \<and>
     world s' = 106 \<and> log_outputscale model' = 4 \<and>
     (\<exists>vs. length vs = 20 \<and> vs ! 19 = 38 / 10 \<and>
        trace s' = trace start @
          [(SetTrain ''model'', Returned), (SetTrain ''likelihood'', Returned),
           (NewAdam (2 / 10), Returned), (New ''ExactMarginalLogLikelihood'', Returned),
           (EnterToeplitz False, Returned)] @
          concat (map (\<lambda>i.
            [(ZeroGrad, Returned), (ModelCall [[0, 0]], Returned), (MllCall, Gave (vs ! i)),
             (Backward (- (vs ! i)), Returned),
             (Print (IterLine (i + 1) 20 (- (vs ! i))), Returned),
             (AdamStep (2 / 10), Returned)]) [0..<20]) @
          [(ExitToeplitz, Returned)]))"
proof -
  note nr = quiet_library_never_raises
  from training_loop_twenty_iterations [of quiet_library "[[0, 0]]" "[2 * pi]" example_model start]
    nr
  obtain model' s' where
    run: "training_cell quiet_library [[0, 0]] [2 * pi] example_model start = (Inr model', s')"
    by blast
  from training_loop_twenty_iterations
    [of quiet_library "[[0, 0]]" "[2 * pi]" example_model start model' s'] run
  obtain w1 w2 w3 w4 ms ws outs vs where
    conf: "effect quiet_library (SetTrain ''model'') (world start) = (Inr (), w1)"
      "effect quiet_library (SetTrain ''likelihood'') w1 = (Inr (), w2)"
      "effect quiet_library (NewAdam (2 / 10)) w2 = (Inr (), w3)"
      "effect quiet_library (New ''ExactMarginalLogLikelihood'') w3 = (Inr (), w4)"
      "effect quiet_library (EnterToeplitz False) w4 = (Inr (), ws ! 0)" and
    len: "length vs = 20" and
    init: "ms ! 0 = example_model" and
    steps: "\<forall>i < 20. \<exists>wa wb wc wd.
           effect quiet_library ZeroGrad (ws ! i) = (Inr (), wa) \<and>
           exact_gp_call quiet_library (ms ! i) [[0, 0]] wa = (Inr (outs ! i), wb) \<and>
           mll_call quiet_library (ms ! i) (outs ! i) [2 * pi] wb = (Inr (vs ! i), wc) \<and>
           backward quiet_library (- (vs ! i)) wc = (Inr (), wd) \<and>
           adam_step quiet_library (2 / 10) (ms ! i) wd =
             (Inr (log_outputscale (ms ! (i + 1))), ws ! (i + 1)) \<and>
           ms ! (i + 1) = (ms ! i)\<lparr>log_outputscale := log_outputscale (ms ! (i + 1))\<rparr>" and
    final: "ms ! 20 = model'"
      "effect quiet_library ExitToeplitz (ws ! 20) = (Inr (), world s')" and
    trace: "trace s' = trace start @
          [(SetTrain ''model'', Returned), (SetTrain ''likelihood'', Returned),
           (NewAdam (2 / 10), Returned), (New ''ExactMarginalLogLikelihood'', Returned),
           (EnterToeplitz False, Returned)] @
          concat (map (\<lambda>i.
            [(ZeroGrad, Returned), (ModelCall [[0, 0]], Returned), (MllCall, Gave (vs ! i)),
             (Backward (- (vs ! i)), Returned),
             (Print (IterLine (i + 1) 20 (- (vs ! i))), Returned),
             (AdamStep (2 / 10), Returned)]) [0..<20]) @
          [(ExitToeplitz, Returned)]"
    by blast
  have w0: "ws ! 0 = 5"
    using conf by (auto simp: quiet_library_def start_def)
  have step: "ws ! (i + 1) = ws ! i + 5 \<and> vs ! i = log_outputscale (ms ! i) \<and>
      log_outputscale (ms ! (i + 1)) = log_outputscale (ms ! i) + 2 / 10"
    if "i < 20" for i
    using steps that by (auto simp: quiet_library_def)
  have inv: "ws ! i = 5 + 5 * i \<and> log_outputscale (ms ! i) = real i * (2 / 10)"
    if "i \<le> 20" for i
    using that
  proof (induction i)
    case 0
    then show ?case
      by (simp add: w0 init example_model_def)
  next
    case (Suc i)
    then have "i < 20" "i \<le> 20" by simp_all
    with Suc.IH step [of i] show ?case
      by (simp add: algebra_simps)
  qed
  have "world s' = 106"
    using final(2) inv [of 20] by (auto simp: quiet_library_def)
  moreover have "log_outputscale model' = 4"
    using final(1) inv [of 20] by simp
  moreover have "vs ! 19 = 38 / 10"
    using step [of 19] inv [of 19] by simp
  ultimately show ?thesis
    using nr run len trace by blast
qed

subsection \<open>The float32 exponential\<close>

















lemma torch_exp_0: "torch_exp 0 = Finite 1"
proof -
  have u: "f32_spacing 1 = 1 / 2 ^ 23"
    by (simp add: f32_spacing_def max_def powr_neg_numeral)
  have "round_half_even (2 ^ 23) = 2 ^ 23"
  proof -
    have "\<lfloor>2 ^ 23 :: real\<rfloor> = 2 ^ 23"
      by (intro floor_unique) simp_all
    then show ?thesis
      by (simp add: round_half_even_def Let_def)
  qed
  then show ?thesis
    by (simp add: torch_exp_def round_f32_def Let_def u)
qed

subsection \<open>The model class\<close>

lemma init_Inr:
  assumes "init L tx ty lik s = (Inr self, s')"
  shows "self = \<lparr>train_inputs = tx, train_targets = ty, likelihood = lik,
          mean_module = ConstantMean,
          base_covar_module = RBFKernel,
          covar_module = AdditiveGridInterpolationKernel RBFKernel 400 [(0, 1)] 2,
          log_outputscale = 0\<rparr>"
  using assms unfolding init_def
  by (auto simp: bind_Inr ret_Inr lib_effect_Inr)

lemma returns_init: "never_raises L \<Longrightarrow> returns (init L tx ty lik)"
  unfolding init_def
  by (intro returns_bind returns_lib_effect returns_ret)

lemma forward_Inr:
  "forward L self x s = (Inr d, s') \<longleftrightarrow>
     (\<exists>mean_x w1 covar_x w2.
        mean_call L (mean_module self) x (world s) = (Inr mean_x, w1) \<and>
        kernel_call L (covar_module self) x w1 = (Inr covar_x, w2) \<and>
        d = GaussianRandomVariable mean_x
          (lazy_mul covar_x (torch_exp (log_outputscale self))) \<and>
        s' = \<lparr>world = w2, trace = trace s @ [(MeanCall, Returned), (KernelCall, Returned)]\<rparr>)"
  unfolding forward_def
  by (auto simp: bind_Inr ret_Inr call_lib_Inr)



text \<open>
  Claim C3. The class is the record of the base class extended by the fields that its
  constructor sets, and has the two methods \<open>init\<close> and \<open>forward\<close>.
  The constructor, when the library calls in it return, leaves a constant mean, an RBF
  base kernel and the additive grid-interpolation kernel over that base kernel with two
  components; against a library that never raises it returns. The forward method, when
  the mean module returns \<open>mean_x\<close> and the kernel returns \<open>covar_x\<close> on the input, returns
  the distribution with mean \<open>mean_x\<close> and covariance \<open>covar_x\<close> scaled by
  \<open>exp(log_outputscale)\<close>, the exponential being the float32 one of the code.
\<close>

theorem model_class_wiring:
  "(init L tx ty lik s0 = (Inr model, s1) \<longrightarrow>
      train_inputs model = tx \<and> train_targets model = ty \<and> likelihood model = lik \<and>
      mean_module model = ConstantMean \<and>
      base_covar_module model = RBFKernel \<and>
      covar_module model =
        AdditiveGridInterpolationKernel (base_covar_module model) 400 [(0, 1)] 2 \<and>
      n_components (covar_module model) = 2) \<and>
   (never_raises L \<longrightarrow> (\<exists>model s1. init L tx ty lik s0 = (Inr model, s1))) \<and>
   (mean_call L (mean_module self) x (world s) = (Inr mean_x, w1) \<and>
    kernel_call L (covar_module self) x w1 = (Inr covar_x, w2) \<longrightarrow>
      (\<exists>d s'. forward L self x s = (Inr d, s') \<and>
         mean_of d = mean_x \<and>
         covar_of d = lazy_mul covar_x (torch_exp (log_outputscale self))))"
proof (intro conjI impI)
  assume "init L tx ty lik s0 = (Inr model, s1)"
  from init_Inr [OF this]
  show "train_inputs model = tx" "train_targets model = ty" "likelihood model = lik"
    "mean_module model = ConstantMean" "base_covar_module model = RBFKernel"
    "covar_module model =
        AdditiveGridInterpolationKernel (base_covar_module model) 400 [(0, 1)] 2"
    "n_components (covar_module model) = 2"
    by simp_all
next
  assume "never_raises L"
  then have "returns (init L tx ty lik)"
    by (rule returns_init)
  then have "\<not> isl (fst (init L tx ty lik s0))"
    unfolding returns_def by (rule spec)
  then show "\<exists>model s1. init L tx ty lik s0 = (Inr model, s1)"
    by (cases "init L tx ty lik s0"; cases "fst (init L tx ty lik s0)") auto
next
  assume "mean_call L (mean_module self) x (world s) = (Inr mean_x, w1) \<and>
    kernel_call L (covar_module self) x w1 = (Inr covar_x, w2)"
  then have "forward L self x s =
      (Inr (GaussianRandomVariable mean_x
         (lazy_mul covar_x (torch_exp (log_outputscale self)))),
       \<lparr>world = w2, trace = trace s @ [(MeanCall, Returned), (KernelCall, Returned)]\<rparr>)"
    unfolding forward_Inr by blast
  then show "\<exists>d s'. forward L self x s = (Inr d, s') \<and>
         mean_of d = mean_x \<and>
         covar_of d = lazy_mul covar_x (torch_exp (log_outputscale self))"
    by simp
qed

theorem model_class_wiring_witness:
  "never_raises quiet_library \<and>
   (\<exists>model s1. init quiet_library [[0, 0]] [2 * pi] GaussianLikelihood start = (Inr model, s1) \<and>
      mean_module model = ConstantMean \<and> base_covar_module model = RBFKernel \<and>
      covar_module model = AdditiveGridInterpolationKernel RBFKernel 400 [(0, 1)] 2) \<and>
   mean_call quiet_library (mean_module example_model) [[0, 0], [1, 1]] (world start) =
     (Inr [0, 0], 1) \<and>
   kernel_call quiet_library (covar_module example_model) [[0, 0], [1, 1]] 1 =
     (Inr [[1, 0], [0, 1]], 2) \<and>
   (\<exists>d s'. forward quiet_library example_model [[0, 0], [1, 1]] start = (Inr d, s') \<and>
      mean_of d = [0, 0] \<and> covar_of d = [[Finite 1, Finite 0], [Finite 0, Finite 1]])"
proof -
  note nr = quiet_library_never_raises
  note T = model_class_wiring [of quiet_library "[[0, 0]]" "[2 * pi]" GaussianLikelihood start
      _ _ example_model "[[0, 0], [1, 1]]" start "[0, 0]" 1 "[[1, 0], [0, 1]]" 2]
  have m: "mean_call quiet_library (mean_module example_model) [[0, 0], [1, 1]] (world start) =
     (Inr [0, 0], 1)"
    by (simp add: quiet_library_def start_def)
  have k: "kernel_call quiet_library (covar_module example_model) [[0, 0], [1, 1]] 1 =
     (Inr [[1, 0], [0, 1]], 2)"
    by (simp add: quiet_library_def)
  from T nr obtain model s1 where
    i: "init quiet_library [[0, 0]] [2 * pi] GaussianLikelihood start = (Inr model, s1)"
    by blast
  from model_class_wiring [of quiet_library "[[0, 0]]" "[2 * pi]" GaussianLikelihood start
      model s1] i
  have w: "mean_module model = ConstantMean \<and> base_covar_module model = RBFKernel \<and>
      covar_module model = AdditiveGridInterpolationKernel RBFKernel 400 [(0, 1)] 2"
    by simp
  from T m k obtain d s' where
    f: "forward quiet_library example_model [[0, 0], [1, 1]] start = (Inr d, s')"
      "mean_of d = [0, 0]"
      "covar_of d = lazy_mul [[1, 0], [0, 1]] (torch_exp (log_outputscale example_model))"
    by blast
  have "covar_of d = [[Finite 1, Finite 0], [Finite 0, Finite 1]]"
    using f(3) by (simp add: lazy_mul_def example_model_def torch_exp_0)
  with nr i w m k f(1,2) show ?thesis
    by blast
qed




subsection \<open>The inputs and the grid of the kernel\<close>

text \<open>
  Claim C9. Every coordinate of every training and test input lies in \<open>[0, 1]\<close>; each of
  the two coordinates takes the value \<open>0\<close> and the value \<open>1\<close> in both tensors; and the
  kernel that the constructor builds declares the bounds \<open>[(0, 1)]\<close>, within which all
  these coordinates fall.
\<close>

theorem inputs_within_grid_bounds:
  "\<exists>tx sx. train_x = Inr tx \<and> test_x = Inr sx \<and>
     (\<forall>row \<in> set tx \<union> set sx. \<forall>v \<in> set row. 0 \<le> v \<and> v \<le> 1) \<and>
     (\<forall>c < 2. (\<exists>row \<in> set tx. row ! c = 0) \<and> (\<exists>row \<in> set tx. row ! c = 1) \<and>
        (\<exists>row \<in> set sx. row ! c = 0) \<and> (\<exists>row \<in> set sx. row ! c = 1)) \<and>
     (init L a b lik s0 = (Inr model, s1) \<longrightarrow>
        grid_bounds (covar_module model) = [(0, 1)] \<and>
        (\<forall>row \<in> set tx \<union> set sx. \<forall>v \<in> set row.
           \<forall>(lo, hi) \<in> set (grid_bounds (covar_module model)). lo \<le> v \<and> v \<le> hi))"
proof -
  have inside: "0 \<le> v \<and> v \<le> 1" if "row \<in> set (grid 100) \<union> set (grid 10)" "v \<in> set row"
    for row v
    using that grid_bounds_all [of 100 row v] grid_bounds_all [of 10 row v] by auto
  have lo: "grid n ! 0 = [0, 0]" "grid n ! 0 \<in> set (grid n)" if "1 < n" for n
  proof -
    show "grid n ! 0 = [0, 0]"
      using that by (simp add: grid_nth grid_point_def)
    show "grid n ! 0 \<in> set (grid n)"
      using that by (intro nth_mem) (simp add: grid_length)
  qed
  have hi: "grid n ! (n * n - 1) = [1, 1]" "grid n ! (n * n - 1) \<in> set (grid n)"
    if "1 < n" for n
  proof -
    have k: "n * n - 1 = (n - 1) * n + (n - 1)"
      using that by (simp add: algebra_simps)
    have q: "real (n - 1) / real_of_int (int n - 1) = 1"
      using that by (simp add: of_nat_diff)
    have "grid n ! (n * n - 1) = grid_point n (n * n - 1)"
      using that by (intro grid_nth) simp
    also have "\<dots> = grid_point n ((n - 1) * n + (n - 1))"
      by (simp only: k)
    also have "\<dots> =
        [real (n - 1) / real_of_int (int n - 1), real (n - 1) / real_of_int (int n - 1)]"
      using that by (intro grid_point_at) simp_all
    also have "\<dots> = [1, 1]"
      by (simp only: q)
    finally show "grid n ! (n * n - 1) = [1, 1]" .
    show "grid n ! (n * n - 1) \<in> set (grid n)"
      using that by (intro nth_mem) (simp add: grid_length)
  qed
  have ends: "(\<exists>row \<in> set (grid n). row ! c = 0) \<and> (\<exists>row \<in> set (grid n). row ! c = 1)"
    if "1 < n" "c < 2" for n c
  proof -
    have "c = 0 \<or> c = 1" using that by auto
    then have "(grid n ! 0) ! c = 0" "(grid n ! (n * n - 1)) ! c = 1"
      using lo(1) [OF that(1)] hi(1) [OF that(1)] by auto
    then show ?thesis
      using lo(2) [OF that(1)] hi(2) [OF that(1)] by blast
  qed
  have bounds: "grid_bounds (covar_module model) = [(0, 1)]"
    if "init L a b lik s0 = (Inr model, s1)"
    using init_Inr [OF that] by simp
  show ?thesis
    using inside ends [of 100] ends [of 10] bounds
    by (simp add: train_x_grid test_x_grid)
qed

theorem inputs_within_grid_bounds_witness:
  "\<exists>tx sx. train_x = Inr tx \<and> test_x = Inr sx \<and>
     tx ! 9999 \<in> set tx \<union> set sx \<and> (1::real) \<in> set (tx ! 9999) \<and> (1::nat) < 2 \<and>
     init quiet_library [[0, 0]] [2 * pi] GaussianLikelihood start =
       (Inr example_model,
        \<lparr>world = 6, trace = [(New ''ExactGP'', Returned), (New ''ConstantMean'', Returned),
           (New ''RBFKernel'', Returned), (New ''AdditiveGridInterpolationKernel'', Returned),
           (New ''Parameter'', Returned), (RegisterParameter ''log_outputscale'', Returned)]\<rparr>) \<and>
     (0, 1) \<in> set (grid_bounds (covar_module example_model)) \<and>
     (\<exists>row \<in> set sx. row ! 1 = 1)"
proof -
  have i: "init quiet_library [[0, 0]] [2 * pi] GaussianLikelihood start =
     (Inr example_model,
      \<lparr>world = 6, trace = [(New ''ExactGP'', Returned), (New ''ConstantMean'', Returned),
         (New ''RBFKernel'', Returned), (New ''AdditiveGridInterpolationKernel'', Returned),
         (New ''Parameter'', Returned), (RegisterParameter ''log_outputscale'', Returned)]\<rparr>)"
    by (simp add: init_def bind_def ret_def lib_effect_def call_lib_def quiet_library_def
        start_def example_model_def)
  from inputs_within_grid_bounds [of quiet_library "[[0, 0]]" "[2 * pi]" GaussianLikelihood
      start example_model] i
  obtain tx sx where
    h: "train_x = Inr tx" "test_x = Inr sx"
      "\<forall>c < 2. (\<exists>row \<in> set tx. row ! c = 0) \<and> (\<exists>row \<in> set tx. row ! c = 1) \<and>
        (\<exists>row \<in> set sx. row ! c = 0) \<and> (\<exists>row \<in> set sx. row ! c = 1)"
      "grid_bounds (covar_module example_model) = [(0, 1)]"
    by blast
  have tx: "tx = grid 100"
    using h(1) by (simp add: train_x_grid)
  have "tx ! 9999 \<in> set tx"
    unfolding tx by (intro nth_mem) (simp add: grid_length)
  moreover have "tx ! 9999 = [1, 1]"
    by (simp add: tx grid_nth grid_point_def)
  ultimately have r: "tx ! 9999 \<in> set tx \<union> set sx" "(1::real) \<in> set (tx ! 9999)"
    by simp_all
  have one: "(1::nat) < 2"
    by simp
  with h(3) have "\<exists>row \<in> set sx. row ! 1 = 1"
    by blast
  moreover have "(0, 1) \<in> set (grid_bounds (covar_module example_model))"
    using h(4) by simp
  ultimately show ?thesis
    using h(1,2) r i one by blast
qed

subsection \<open>The evaluation cell\<close>

lemma rows_of_shape:
  assumes "length t = r * c"
  shows "length (rows_of r c t) = r"
    "\<And>i. i < r \<Longrightarrow> length (rows_of r c t ! i) = c"
    "\<And>i j. i < r \<Longrightarrow> j < c \<Longrightarrow> rows_of r c t ! i ! j = t ! (i * c + j)"
proof -
  show "length (rows_of r c t) = r"
    by (simp add: rows_of_def)
  have room: "i * c + c \<le> r * c" if "i < r" for i
  proof -
    have "Suc i * c \<le> r * c"
      using that by (intro mult_le_mono1) simp
    then show ?thesis by simp
  qed
  show "length (rows_of r c t ! i) = c" if "i < r" for i
    using that room [OF that] by (simp add: rows_of_def assms)
  show "rows_of r c t ! i ! j = t ! (i * c + j)" if "i < r" "j < c" for i j
    using that room [OF that(1)] by (simp add: rows_of_def assms)
qed

lemma view2_Inr:
  "view2 r c t = Inr m \<longleftrightarrow> length t = r * c \<and> m = rows_of r c t"
  by (auto simp: view2_def)

lemma reshape2_Inr:
  "reshape2 r c t = Inr m \<longleftrightarrow> length t = r * c \<and> m = rows_of r c t"
  by (auto simp: reshape2_def)

lemma cols_nth: "0 < length a \<Longrightarrow> cols a = length (a ! 0)"
  by (cases a) (simp_all add: cols_def)

lemma np_subtract_same_shape:
  assumes "0 < r" "length a = r" "length b = r"
    "\<And>i. i < r \<Longrightarrow> length (a ! i) = c" "\<And>i. i < r \<Longrightarrow> length (b ! i) = c"
  shows "np_subtract a b = Inr (map (\<lambda>i. map (\<lambda>j. a ! i ! j - b ! i ! j) [0..<c]) [0..<r])"
proof -
  have ca: "cols a = c" and cb: "cols b = c"
    using assms by (simp_all add: cols_nth)
  have "bget a i j = a ! i ! j" "bget b i j = b ! i ! j" if "i < r" "j < c" for i j
    using that assms(2,3) by (auto simp: bget_def ca cb)
  then have "map (\<lambda>i. map (\<lambda>j. bget a i j - bget b i j) [0..<c]) [0..<r] =
      map (\<lambda>i. map (\<lambda>j. a ! i ! j - b ! i ! j) [0..<c]) [0..<r]"
    by simp
  then show ?thesis
    using assms(2,3) by (simp add: np_subtract_def bcast_def ca cb)
qed

lemma eval_cell_Inr:
  assumes "eval_cell L model s = (Inr (pred_labels, actual, delta_y), s')"
  shows "\<exists>f observed_pred y d w1 w2 w3.
    exact_gp_call L model (grid 10) w1 = (Inr f, w2) \<and>
    likelihood_call L f w2 = (Inr observed_pred, w3) \<and>
    view2 10 10 (mean_of observed_pred) = Inr pred_labels \<and>
    target_formula (grid 10) = Inr y \<and>
    reshape2 10 10 y = Inr actual \<and>
    np_subtract pred_labels actual = Inr d \<and>
    delta_y = np_absolute d"
  using assms unfolding eval_cell_def bind_Inr ret_Inr call_py_Inr call_lib_Inr test_x_grid
  by (elim exE conjE) (simp, blast)

lemma view2_eq: "length t = r * c \<Longrightarrow> view2 r c t = Inr (rows_of r c t)"
  by (simp add: view2_def)

lemma reshape2_eq: "length t = r * c \<Longrightarrow> reshape2 r c t = Inr (rows_of r c t)"
  by (simp add: reshape2_def)

lemma returns_bind_effect:
  "never_raises L \<Longrightarrow> (\<And>u. returns (f u)) \<Longrightarrow> returns (bind (lib_effect L c) f)"
  by (intro returns_bind returns_lib_effect)

lemma returns_bind_call_py:
  "r = Inr a \<Longrightarrow> returns (f a) \<Longrightarrow> returns (bind (call_py c r) f)"
  by (simp add: returns_def bind_def call_py_def call_lib_def)

lemma returns_bind_call_lib:
  assumes "\<And>w. \<not> isl (fst (g w))" "\<And>w a w'. g w = (Inr a, w') \<Longrightarrow> returns (f a)"
  shows "returns (bind (call_lib c g) f)"
proof -
  have "\<not> isl (fst (bind (call_lib c g) f s))" for s
  proof (cases "g (world s)")
    case (Pair r w')
    with assms(1) [of "world s"] obtain a where r: "r = Inr a"
      by (cases r) simp_all
    from assms(2) [of "world s" a w'] Pair r have "returns (f a)"
      by simp
    then show ?thesis
      using Pair r by (simp add: returns_def bind_def call_lib_def)
  qed
  then show ?thesis
    by (simp add: returns_def)
qed

lemma returns_ax_plot: "never_raises L \<Longrightarrow> returns (ax_plot L title)"
  unfolding ax_plot_def
  by (intro returns_bind returns_lib_effect)

lemma returns_eval_cell:
  assumes nr: "never_raises L"
    and len: "\<And>w f w1 w2 d w3. exact_gp_call L model (grid 10) w = (Inr f, w1) \<Longrightarrow>
      likelihood_call L f w2 = (Inr d, w3) \<Longrightarrow> length (mean_of d) = 100"
  shows "returns (eval_cell L model)"
  unfolding eval_cell_def
  apply (intro returns_bind_effect [OF nr])
  apply (rule returns_bind_call_py [OF test_x_grid])
  apply (rule returns_bind_call_lib)
  subgoal using nr by (simp add: never_raises_def)
  apply (rule returns_bind_call_lib)
  subgoal using nr by (simp add: never_raises_def)
  apply (rule returns_bind_call_py [OF view2_eq])
  subgoal using len by simp
  apply (intro returns_bind_effect [OF nr])
  apply (rule returns_bind_call_py [OF target_formula_grid])
  apply (intro returns_bind_effect [OF nr])
  apply (rule returns_bind_call_py [OF reshape2_eq])
  subgoal by (simp add: grid_length)
  apply (rule returns_bind_call_py [OF np_subtract_same_shape [of 10 _ _ 10]])
  subgoal by simp
  subgoal using len by (simp add: rows_of_shape)
  subgoal by (simp add: rows_of_shape grid_length)
  subgoal using len by (simp add: rows_of_shape)
  subgoal by (simp add: rows_of_shape grid_length)
  apply (intro returns_bind returns_lib_effect [OF nr] returns_ax_plot [OF nr] returns_ret)
  done

text \<open>
  Claim C7. When the evaluation cell completes, the predicted labels are the mean of the
  likelihood applied to the model applied to the test inputs, viewed as \<open>10 x 10\<close>; the
  actual values are the formula on the same test inputs, reshaped alike; and the error
  surface is, entry by entry, the absolute value of their difference. The cell completes
  against a library that never raises and predicts one mean per test point.
\<close>

theorem absolute_error_surface:
  "(eval_cell L model s = (Inr (pred_labels, actual, delta_y), s') \<longrightarrow>
     (\<exists>sx sy f observed_pred w1 w2 w3.
        test_x = Inr sx \<and> test_y_actual = Inr sy \<and>
        exact_gp_call L model sx w1 = (Inr f, w2) \<and>
        likelihood_call L f w2 = (Inr observed_pred, w3) \<and>
        length delta_y = 10 \<and>
        (\<forall>i < 10. length (delta_y ! i) = 10 \<and>
           (\<forall>j < 10.
              pred_labels ! i ! j = mean_of observed_pred ! (i * 10 + j) \<and>
              actual ! i ! j = sy ! (i * 10 + j) \<and>
              sy ! (i * 10 + j) =
                (sin (sx ! (i * 10 + j) ! 0) + cos (sx ! (i * 10 + j) ! 1)) * (2 * pi) \<and>
              delta_y ! i ! j = \<bar>pred_labels ! i ! j - actual ! i ! j\<bar>)))) \<and>
   (never_raises L \<and>
    (\<forall>w f w1 w2 d w3. exact_gp_call L model (grid 10) w = (Inr f, w1) \<and>
       likelihood_call L f w2 = (Inr d, w3) \<longrightarrow> length (mean_of d) = 100) \<longrightarrow>
      (\<exists>result s'. eval_cell L model s = (Inr result, s')))"
proof (intro conjI impI)
  assume "eval_cell L model s = (Inr (pred_labels, actual, delta_y), s')"
  from eval_cell_Inr [OF this] obtain f observed_pred y d w1 w2 w3 where
    f: "exact_gp_call L model (grid 10) w1 = (Inr f, w2)" and
    o: "likelihood_call L f w2 = (Inr observed_pred, w3)" and
    p: "view2 10 10 (mean_of observed_pred) = Inr pred_labels" and
    y: "target_formula (grid 10) = Inr y" and
    a: "reshape2 10 10 y = Inr actual" and
    d: "np_subtract pred_labels actual = Inr d" and
    delta: "delta_y = np_absolute d"
    by blast
  let ?sy = "map (\<lambda>row. (sin (row ! 0) + cos (row ! 1)) * (2 * pi)) (grid 10)"
  have y': "y = ?sy"
    using y by (simp add: target_formula_grid)
  have lp: "length (mean_of observed_pred) = 10 * 10" and p': "pred_labels = rows_of 10 10 (mean_of observed_pred)"
    using p by (simp_all add: view2_Inr)
  have la: "length y = 10 * 10" and a': "actual = rows_of 10 10 y"
    using a by (simp_all add: reshape2_Inr)
  note vp = rows_of_shape [OF lp, folded p'] and va = rows_of_shape [OF la, folded a']
  have "np_subtract pred_labels actual =
      Inr (map (\<lambda>i. map (\<lambda>j. pred_labels ! i ! j - actual ! i ! j) [0..<10]) [0..<10])"
    using vp(1,2) va(1,2) by (intro np_subtract_same_shape) simp_all
  with d have d': "d = map (\<lambda>i. map (\<lambda>j. pred_labels ! i ! j - actual ! i ! j) [0..<10]) [0..<10]"
    by simp
  have len: "length delta_y = 10"
    by (simp add: delta d' np_absolute_def)
  have entries: "length (delta_y ! i) = 10 \<and>
           (\<forall>j < 10.
              pred_labels ! i ! j = mean_of observed_pred ! (i * 10 + j) \<and>
              actual ! i ! j = ?sy ! (i * 10 + j) \<and>
              ?sy ! (i * 10 + j) =
                (sin (grid 10 ! (i * 10 + j) ! 0) + cos (grid 10 ! (i * 10 + j) ! 1)) * (2 * pi) \<and>
              delta_y ! i ! j = \<bar>pred_labels ! i ! j - actual ! i ! j\<bar>)"
    if i: "i < 10" for i
  proof (intro conjI allI impI)
    show "length (delta_y ! i) = 10"
      using i by (simp add: delta d' np_absolute_def)
  next
    fix j :: nat
    assume j: "j < 10"
    have k: "i * 10 + j < 10 * 10"
      using index_in_grid [OF i j] .
    show "pred_labels ! i ! j = mean_of observed_pred ! (i * 10 + j)"
      using vp(3) [OF i j] .
    show "actual ! i ! j = ?sy ! (i * 10 + j)"
      using va(3) [OF i j] by (simp only: y')
    show "?sy ! (i * 10 + j) =
        (sin (grid 10 ! (i * 10 + j) ! 0) + cos (grid 10 ! (i * 10 + j) ! 1)) * (2 * pi)"
      using k by (simp add: grid_length)
    show "delta_y ! i ! j = \<bar>pred_labels ! i ! j - actual ! i ! j\<bar>"
      using i j by (simp add: delta d' np_absolute_def)
  qed
  show "\<exists>sx sy f observed_pred w1 w2 w3.
        test_x = Inr sx \<and> test_y_actual = Inr sy \<and>
        exact_gp_call L model sx w1 = (Inr f, w2) \<and>
        likelihood_call L f w2 = (Inr observed_pred, w3) \<and>
        length delta_y = 10 \<and>
        (\<forall>i < 10. length (delta_y ! i) = 10 \<and>
           (\<forall>j < 10.
              pred_labels ! i ! j = mean_of observed_pred ! (i * 10 + j) \<and>
              actual ! i ! j = sy ! (i * 10 + j) \<and>
              sy ! (i * 10 + j) =
                (sin (sx ! (i * 10 + j) ! 0) + cos (sx ! (i * 10 + j) ! 1)) * (2 * pi) \<and>
              delta_y ! i ! j = \<bar>pred_labels ! i ! j - actual ! i ! j\<bar>))"
    using test_x_grid test_y_actual_grid f o len entries by blast
next
  assume h: "never_raises L \<and>
    (\<forall>w f w1 w2 d w3. exact_gp_call L model (grid 10) w = (Inr f, w1) \<and>
       likelihood_call L f w2 = (Inr d, w3) \<longrightarrow> length (mean_of d) = 100)"
  then have "returns (eval_cell L model)"
    by (intro returns_eval_cell) blast+
  then have "\<not> isl (fst (eval_cell L model s))"
    unfolding returns_def by (rule spec)
  then show "\<exists>result s'. eval_cell L model s = (Inr result, s')"
    by (cases "eval_cell L model s"; cases "fst (eval_cell L model s)") auto
qed

theorem absolute_error_surface_witness:
  "never_raises quiet_library \<and>
   (\<exists>pred_labels actual delta_y s'.
      eval_cell quiet_library example_model start = (Inr (pred_labels, actual, delta_y), s') \<and>
      (0::nat) < 10 \<and> length delta_y = 10 \<and> length (delta_y ! 0) = 10 \<and>
      pred_labels ! 0 ! 0 = 0 \<and> actual ! 0 ! 0 = 2 * pi \<and> delta_y ! 0 ! 0 = 2 * pi)"
proof -
  note nr = quiet_library_never_raises
  have len: "\<forall>w f w1 w2 d w3.
      exact_gp_call quiet_library example_model (grid 10) w = (Inr f, w1) \<and>
      likelihood_call quiet_library f w2 = (Inr d, w3) \<longrightarrow> length (mean_of d) = 100"
    by (auto simp: quiet_library_def grid_length)
  from absolute_error_surface [of quiet_library example_model start] nr len
  obtain result s' where "eval_cell quiet_library example_model start = (Inr result, s')"
    by blast
  then obtain pred_labels actual delta_y where
    run: "eval_cell quiet_library example_model start = (Inr (pred_labels, actual, delta_y), s')"
    by (cases result) auto
  from absolute_error_surface
    [of quiet_library example_model start pred_labels actual delta_y s'] run
  obtain sx sy f observed_pred w1 w2 w3 where
    h: "test_x = Inr sx" "test_y_actual = Inr sy"
      "exact_gp_call quiet_library example_model sx w1 = (Inr f, w2)"
      "likelihood_call quiet_library f w2 = (Inr observed_pred, w3)"
      "length delta_y = 10"
      "\<forall>i < 10. length (delta_y ! i) = 10 \<and>
           (\<forall>j < 10.
              pred_labels ! i ! j = mean_of observed_pred ! (i * 10 + j) \<and>
              actual ! i ! j = sy ! (i * 10 + j) \<and>
              sy ! (i * 10 + j) =
                (sin (sx ! (i * 10 + j) ! 0) + cos (sx ! (i * 10 + j) ! 1)) * (2 * pi) \<and>
              delta_y ! i ! j = \<bar>pred_labels ! i ! j - actual ! i ! j\<bar>)"
    by blast
  have z: "(0::nat) < 10"
    by simp
  from h(6) z have e: "length (delta_y ! 0) = 10"
    "pred_labels ! 0 ! 0 = mean_of observed_pred ! (0 * 10 + 0)"
    "actual ! 0 ! 0 = sy ! (0 * 10 + 0)"
    "sy ! (0 * 10 + 0) = (sin (sx ! (0 * 10 + 0) ! 0) + cos (sx ! (0 * 10 + 0) ! 1)) * (2 * pi)"
    "delta_y ! 0 ! 0 = \<bar>pred_labels ! 0 ! 0 - actual ! 0 ! 0\<bar>"
    by blast+
  have sx: "sx = grid 10"
    using h(1) by (simp add: test_x_grid)
  have "observed_pred = GaussianRandomVariable (map (\<lambda>row. 0) (grid 10)) []"
    using h(3,4) by (auto simp: quiet_library_def sx)
  then have p0: "pred_labels ! 0 ! 0 = 0"
    using e(2) by (simp add: grid_length)
  have "sx ! 0 = [0, 0]"
    by (simp add: sx grid_nth grid_point_def)
  then have a0: "actual ! 0 ! 0 = 2 * pi"
    using e(3,4) by simp
  have "delta_y ! 0 ! 0 = 2 * pi"
    using e(5) p0 a0 by simp
  with nr run z h(5) e(1) p0 a0 show ?thesis
    by blast
qed

end
